theory Spec2Isabelle
  imports Complex_Main
begin

section \<open>Common model: numbers, HTTP exceptions, observable network calls\<close>

text \<open>
  The services are TypeScript classes of a NestJS application. Every method is a single
  sequential request: it awaits each external call before the next statement runs. The
  embedding therefore is a writer/exception computation: a method returns the list of
  network calls it made, in order, together with either the exception it threw or its
  return value.

  JavaScript numbers are modelled as exact reals: rounding of IEEE doubles, \<open>NaN\<close> and
  infinities are outside the model, with two exceptions. Where the source can produce
  \<open>NaN\<close> from \<open>undefined\<close>, it is written as \<open>None\<close>. And the token amount of the
  account-model send, whose digits depend on it, is computed and printed as a double.
\<close>

type_synonym number = real

datatype http_status = BAD_REQUEST | INTERNAL_SERVER_ERROR

text \<open>\<open>new HttpException(message, status)\<close>; \<open>e_message\<close> reads \<open>e.message\<close>.\<close>

datatype http_exception = HttpException (e_message: string) (e_status: http_status)

text \<open>Every request the services can put on the wire.\<close>

datatype net_call =
    GetRecommendedFees
  | GetAddrsFull string
  | GetAddressDashboard string
  | PushTransaction string
  | RpcGetBalance string
  | RpcDecimals string
  | RpcBalanceOf string string
  | RpcGetGasPrice
  | RpcEstimateGasTransfer string string string string
  | RpcGetTransactionCount string
  | RpcSendSignedTransaction string

type_synonym 'a io = "net_call list \<times> (http_exception + 'a)"

definition return_io :: "'a \<Rightarrow> 'a io" where
  "return_io x = ([], Inr x)"

definition throw_io :: "http_exception \<Rightarrow> 'a io" where
  "throw_io e = ([], Inl e)"

text \<open>Sequencing: a thrown exception skips the rest; the calls made so far stay observed.\<close>

definition bind_io :: "'a io \<Rightarrow> ('a \<Rightarrow> 'b io) \<Rightarrow> 'b io" where
  "bind_io m f =
     (case m of
        (t, Inl e) \<Rightarrow> (t, Inl e)
      | (t, Inr x) \<Rightarrow> (case f x of (t', r) \<Rightarrow> (t @ t', r)))"

text \<open>
  One awaited request: the call is recorded, and a transport failure (an axios or web3
  error with message \<open>m\<close>) is thrown as a plain error carrying that message.
  The status of a plain error is never read; it is recorded as INTERNAL_SERVER_ERROR.
\<close>

definition request :: "net_call \<Rightarrow> string + 'a \<Rightarrow> 'a io" where
  "request c resp =
     (case resp of
        Inl m \<Rightarrow> ([c], Inl (HttpException m INTERNAL_SERVER_ERROR))
      | Inr x \<Rightarrow> ([c], Inr x))"

text \<open>A local library call that may throw an error with a message; nothing on the wire.\<close>

definition library :: "string + 'a \<Rightarrow> 'a io" where
  "library resp =
     (case resp of
        Inl m \<Rightarrow> ([], Inl (HttpException m INTERNAL_SERVER_ERROR))
      | Inr x \<Rightarrow> ([], Inr x))"

text \<open>
  The handler every service method ends with:
  \<^verbatim>\<open>catch (e) { throw new HttpException({ message: e.message },
                 HttpStatus.INTERNAL_SERVER_ERROR, { cause: e }); }\<close>
  The message survives, the status becomes INTERNAL_SERVER_ERROR.
\<close>

definition catch_rewrap :: "'a io \<Rightarrow> 'a io" where
  "catch_rewrap m =
     (case m of
        (t, Inl e) \<Rightarrow> (t, Inl (HttpException (e_message e) INTERNAL_SERVER_ERROR))
      | (t, Inr x) \<Rightarrow> (t, Inr x))"

definition calls :: "'a io \<Rightarrow> net_call list" where
  "calls m = fst m"

definition outcome :: "'a io \<Rightarrow> http_exception + 'a" where
  "outcome m = snd m"

fun is_push :: "net_call \<Rightarrow> bool" where
  "is_push (PushTransaction h) = True"
| "is_push c = False"

text \<open>Decimal rendering of a non-negative integer, as \<open>String(n)\<close> prints it.\<close>

definition digit_char :: "nat \<Rightarrow> char" where
  "digit_char d = ''0123456789'' ! d"

fun String_nat :: "nat \<Rightarrow> string" where
  "String_nat n =
     (if n < 10 then [digit_char n] else String_nat (n div 10) @ [digit_char (n mod 10)])"

declare String_nat.simps [simp del]

section \<open>UTXO engine: \<open>BtcServiceV1\<close> (src/src/btc/v1/btc.service.ts)\<close>

subsection \<open>Data\<close>

text \<open>
  The explorer's answer to \<open>GET /addrs/{address}/full\<close> is \<open>data.txs\<close>; of each
  transaction the service reads \<open>hash\<close> and \<open>outputs\<close>, of each output \<open>addresses\<close>.
  The explorer sends \<open>addresses: null\<close> (\<open>None\<close>) for an output that pays no address,
  such as a data output.
\<close>

record explorer_output =
  addresses :: "string list option"

record explorer_tx =
  hash :: string
  outputs :: "explorer_output list"

text \<open>The pair returned by \<open>getPreviousTransactionHashAndOutputIndex\<close>.\<close>

record prior_output =
  previousTransactionHash :: string
  previousOutputIndex :: int

text \<open>A bitcoinjs-lib \<open>Transaction\<close>: the fields \<open>ins\<close> and \<open>outs\<close> the service touches.\<close>

record tx_in =
  in_hash :: string
  in_index :: int
  script :: string

record tx_out =
  out_address :: string
  "value" :: number

record transaction =
  ins :: "tx_in list"
  outs :: "tx_out list"

text \<open>
  The request bodies. Both send requests carry \<open>private_key\<close>, \<open>to_address\<close> and
  \<open>amount\<close>; an optional field that is \<open>undefined\<close> is \<open>None\<close>.
\<close>

record send_dto =
  private_key :: string
  to_address :: string
  amount :: number

record send_btc_dto = send_dto +
  fee :: "number option"

text \<open>What the push endpoint can answer to \<open>POST /push/transaction\<close>.\<close>

datatype push_response =
    Accepted string
  | Refused string
  | NoResponse

text \<open>Result shapes: \<open>{status, data}\<close> and \<open>{status, message}\<close>.\<close>

record status_reply =
  status :: bool

record 'a data_reply = status_reply +
  data :: 'a

record message_reply = status_reply +
  message :: string

record sent_reply =
  is_success_transaction :: bool
  transaction_id :: string
  sent_from :: string
  sent_to :: string
  sent_value :: string
  timestamp :: string

text \<open>
  \<open>send\<close> returns an rxjs observable; the framework subscribes to it, which performs
  the POST. The observable emits one of the first two shapes, or errors when the handler
  inside \<open>catchError\<close> itself throws.
\<close>

datatype send_result =
    Sent sent_reply
  | NotSent message_reply
  | StreamError string

text \<open>
  Everything outside the service: the libraries it calls (bitcoinjs-lib,
  bitcoin-address-validation), the two helpers of
  \<open>common/helper/helper.function\<close>, which are taken as parameters from numbers to
  numbers, and the answers of the remote endpoints. \<open>txb_sign_build\<close> stands for the
  calls \<open>addInput\<close>, \<open>addOutput\<close>, \<open>sign\<close> and \<open>build\<close> of the transaction builder:
  the message of the error one of them throws, or the signature script of the input.
\<close>

record btc_env =
  fromWIF_address :: "string \<Rightarrow> string + string"
  validate :: "string \<Rightarrow> bool"
  convertToSatoshi :: "number \<Rightarrow> number"
  convertFromSatoshi :: "number \<Rightarrow> number"
  txb_sign_build :: "string \<Rightarrow> string \<Rightarrow> int \<Rightarrow> string \<Rightarrow> number \<Rightarrow> string + string"
  byteLength :: "transaction \<Rightarrow> nat"
  toHex :: "transaction \<Rightarrow> string + string"
  String_number :: "number \<Rightarrow> string"
  Date_now :: nat
  fees_recommended :: "string + number"
  addrs_full :: "string \<Rightarrow> string + explorer_tx list"
  dashboard_address :: "string \<Rightarrow> string + number option"
  push_transaction :: "string \<Rightarrow> push_response"

subsection \<open>Operations\<close>

text \<open>\<open>Array.prototype.indexOf\<close>: the first position holding the element, \<open>-1\<close> if none.\<close>

fun indexOf_from :: "'a list \<Rightarrow> 'a \<Rightarrow> int \<Rightarrow> int" where
  "indexOf_from [] x i = - 1"
| "indexOf_from (y # ys) x i = (if y = x then i else indexOf_from ys x (i + 1))"

definition indexOf :: "'a list \<Rightarrow> 'a \<Rightarrow> int" where
  "indexOf xs x = indexOf_from xs x 0"

text \<open>\<open>parseFloat\<close> of a number prints and re-reads it: the same number.\<close>

definition parseFloat :: "number \<Rightarrow> number" where
  "parseFloat x = x"

text \<open>The messages of the runtime's TypeError for a property access on a missing object.\<close>

definition null_read_message :: "string \<Rightarrow> string" where
  "null_read_message p =
     ''Cannot read properties of null (reading '' @ [CHR 0x27] @ p @ [CHR 0x27] @ '')''"

definition undefined_read_message :: "string \<Rightarrow> string" where
  "undefined_read_message p =
     ''Cannot read properties of undefined (reading '' @ [CHR 0x27] @ p @ [CHR 0x27] @ '')''"

definition undefined_write_message :: "string \<Rightarrow> string" where
  "undefined_write_message p =
     ''Cannot set properties of undefined (setting '' @ [CHR 0x27] @ p @ [CHR 0x27] @ '')''"

text \<open>Lines 19-29: \<open>ECPair.fromWIF\<close> throws on a malformed key; nothing is sent.\<close>

definition getAddressFromPrivateKey :: "btc_env \<Rightarrow> string \<Rightarrow> string io" where
  "getAddressFromPrivateKey env privateKey = library (fromWIF_address env privateKey)"

text \<open>Lines 31-49.\<close>

definition calculateAverageFee :: "btc_env \<Rightarrow> number io" where
  "calculateAverageFee env =
     catch_rewrap (request GetRecommendedFees (fees_recommended env))"

text \<open>
  Lines 69-71, \<open>outputs.find((output) => output.addresses.includes(address))\<close>: the
  outputs are tested in order up to the first one that lists the address; the test of an
  output whose \<open>addresses\<close> is null throws a TypeError.
\<close>

fun find_output :: "string \<Rightarrow> explorer_output list \<Rightarrow> explorer_output option io" where
  "find_output address [] = return_io None"
| "find_output address (output # rest) =
     (case addresses output of
        None \<Rightarrow>
          throw_io (HttpException (null_read_message ''includes'') INTERNAL_SERVER_ERROR)
      | Some listed \<Rightarrow>
          if address \<in> set listed then return_io (Some output)
          else find_output address rest)"

text \<open>
  Lines 51-97. The transaction taken is the last element of \<open>data.txs\<close>, whatever its
  outputs; no other transaction is looked at. \<open>indexOf\<close> gives the position of the very
  object that \<open>find\<close> returned; an earlier output equal to it would have been found
  first, so comparing by value gives the same position.
\<close>

definition getPreviousTransactionHashAndOutputIndex ::
    "btc_env \<Rightarrow> string \<Rightarrow> number \<Rightarrow> prior_output io" where
  "getPreviousTransactionHashAndOutputIndex env address amt =
     catch_rewrap
       (bind_io (request (GetAddrsFull address) (addrs_full env address)) (\<lambda>txs.
          if length txs = 0
          then throw_io (HttpException ''No previous transactions found'' BAD_REQUEST)
          else
            let previousTransaction = txs ! (length txs - 1) in
            bind_io (find_output address (outputs previousTransaction)) (\<lambda>found.
            case found of
              None \<Rightarrow> throw_io (HttpException ''Previous output not found'' BAD_REQUEST)
            | Some previousOutput \<Rightarrow>
                return_io
                  \<lparr>previousTransactionHash = hash previousTransaction,
                   previousOutputIndex =
                     indexOf (outputs previousTransaction) previousOutput\<rparr>)))"

text \<open>
  Lines 137-170, called by \<open>send\<close> with \<open>{ address }\<close>. A dashboard without an entry for
  the address leaves \<open>balanceData\<close> null, and reading \<open>balanceData.balance\<close> throws.
\<close>

definition BtcServiceV1_balance :: "btc_env \<Rightarrow> string \<Rightarrow> number data_reply io" where
  "BtcServiceV1_balance env address =
     catch_rewrap
       (if \<not> validate env address
        then throw_io (HttpException ''Incorrect address'' BAD_REQUEST)
        else
          bind_io (request (GetAddressDashboard address) (dashboard_address env address))
            (\<lambda>balanceData.
               case balanceData of
                 None \<Rightarrow>
                   throw_io (HttpException (null_read_message ''balance'') INTERNAL_SERVER_ERROR)
               | Some bal \<Rightarrow>
                   return_io \<lparr>status = True, data = convertFromSatoshi env bal\<rparr>))"

text \<open>
  Lines 203-218: a fresh builder, one \<open>addInput\<close>, one \<open>addOutput\<close>, \<open>sign(0, key)\<close>,
  \<open>build()\<close>. Any of the four may throw inside the library; when none does, the built
  transaction has the one input, now carrying its signature script, and the one output.
\<close>

definition build_signed :: "btc_env \<Rightarrow> send_btc_dto \<Rightarrow> prior_output \<Rightarrow> transaction io" where
  "build_signed env dto prev =
     bind_io
       (library (txb_sign_build env (private_key dto) (previousTransactionHash prev)
                   (previousOutputIndex prev) (to_address dto)
                   (convertToSatoshi env (amount dto))))
       (\<lambda>sig. return_io
          \<lparr>ins = [\<lparr>in_hash = previousTransactionHash prev,
                   in_index = previousOutputIndex prev, script = sig\<rparr>],
           outs = [\<lparr>out_address = to_address dto,
                    value = convertToSatoshi env (amount dto)\<rparr>]\<rparr>)"

text \<open>
  Line 238, \<open>builtTransaction.outs[i].value = v\<close>: outside the array \<open>outs[i]\<close> is
  \<open>undefined\<close> and the assignment throws a TypeError.
\<close>

definition set_out_value :: "transaction \<Rightarrow> int \<Rightarrow> number \<Rightarrow> transaction io" where
  "set_out_value tx i v =
     (if 0 \<le> i \<and> i < int (length (outs tx))
      then return_io (tx\<lparr>outs := (outs tx)[nat i := (outs tx ! nat i)\<lparr>value := v\<rparr>]\<rparr>)
      else throw_io (HttpException (undefined_write_message ''value'') INTERNAL_SERVER_ERROR))"

text \<open>
  Lines 269-301: the POST and the mapping of its answer. A failure without a response
  body makes \<open>error.response.data\<close> throw inside the handler.
\<close>

definition push :: "btc_env \<Rightarrow> send_btc_dto \<Rightarrow> string \<Rightarrow> string \<Rightarrow> send_result io" where
  "push env dto address hexTransaction =
     ([PushTransaction hexTransaction],
      Inr (case push_transaction env hexTransaction of
             Accepted h \<Rightarrow>
               Sent \<lparr>is_success_transaction = True, transaction_id = h,
                     sent_from = address, sent_to = to_address dto,
                     sent_value = String_number env (amount dto),
                     timestamp = String_nat (Date_now env)\<rparr>
           | Refused errorMessage \<Rightarrow>
               (if errorMessage = ''Invalid transaction. Error: txn-mempool-conflict''
                then NotSent \<lparr>status = False,
                       message = ''You have an incomplete transaction. Wait until the previous transaction is completed''\<rparr>
                else NotSent \<lparr>status = False, message = errorMessage\<rparr>)
           | NoResponse \<Rightarrow> StreamError (undefined_read_message ''data'')))"

text \<open>
  \<open>send\<close>, lines 172-313, follows its own section comments: resolving the inputs
  (174-197), creating the transaction (199-218, \<open>build_signed\<close> above), computing and
  setting the fee (220-241), the balance check (243-267) and the POST (269-301).

  Lines 174-197. \<open>sendBtcDto.fee || (await this.calculateAverageFee())\<close> asks the
  estimator when the fee is absent or zero, and it does so before the recipient address
  is validated. The check \<open>previousOutputIndex === undefined\<close> of line 192 can never
  hold for the number that \<open>indexOf\<close> returned and has no branch here.
\<close>

record resolved =
  r_address :: string
  r_feePerByte :: number
  r_prev :: prior_output

definition resolve_inputs :: "btc_env \<Rightarrow> send_btc_dto \<Rightarrow> resolved io" where
  "resolve_inputs env dto =
     bind_io (getAddressFromPrivateKey env (private_key dto)) (\<lambda>address.
     let toAddress = to_address dto in
     bind_io (case fee dto of
                Some f \<Rightarrow> if f \<noteq> 0 then return_io f else calculateAverageFee env
              | None \<Rightarrow> calculateAverageFee env) (\<lambda>feePerByte.
     if \<not> validate env toAddress
     then throw_io (HttpException ''Incorrect recipient address'' BAD_REQUEST)
     else
       bind_io (getPreviousTransactionHashAndOutputIndex env address (amount dto))
         (\<lambda>p. return_io \<lparr>r_address = address, r_feePerByte = feePerByte, r_prev = p\<rparr>)))"

text \<open>Lines 220-241: size, fee, the guard on the index, the overwrite, the hex form.\<close>

record settled =
  s_calculateFee :: number
  s_transaction :: transaction
  s_hex :: string

definition settle_fee :: "btc_env \<Rightarrow> number \<Rightarrow> int \<Rightarrow> transaction \<Rightarrow> settled io" where
  "settle_fee env feePerByte idx builtTransaction =
     (let transactionSize = byteLength env builtTransaction;
          calculateFee = feePerByte * real transactionSize in
      if idx \<ge> int (length (outs builtTransaction))
      then throw_io (HttpException
             (''Output with index '' @ String_nat (nat idx)
                @ '' does not exist.'') BAD_REQUEST)
      else
        bind_io (set_out_value builtTransaction idx calculateFee) (\<lambda>tx.
        bind_io (library (toHex env tx)) (\<lambda>hexTransaction.
        return_io \<lparr>s_calculateFee = calculateFee, s_transaction = tx,
                   s_hex = hexTransaction\<rparr>)))"

text \<open>Lines 243-256: the amount the balance is compared with.\<close>

definition totalPayFormat :: "btc_env \<Rightarrow> send_btc_dto \<Rightarrow> number \<Rightarrow> settled \<Rightarrow> number" where
  "totalPayFormat env dto feePerByte s =
     (let totalFeePerOutput = s_calculateFee s;
          totalFeePerInput = feePerByte * real (length (ins (s_transaction s)));
          totalFee = totalFeePerOutput + totalFeePerInput;
          totalPay = convertFromSatoshi env totalFee + amount dto
      in parseFloat totalPay)"

text \<open>Lines 258-267.\<close>

definition check_balance ::
    "btc_env \<Rightarrow> send_btc_dto \<Rightarrow> string \<Rightarrow> number \<Rightarrow> settled \<Rightarrow> unit io" where
  "check_balance env dto address feePerByte s =
     bind_io (BtcServiceV1_balance env address) (\<lambda>userBalance.
       if data userBalance < totalPayFormat env dto feePerByte s
       then throw_io (HttpException ''Insufficient coin balance'' INTERNAL_SERVER_ERROR)
       else return_io ())"

definition BtcServiceV1_send :: "btc_env \<Rightarrow> send_btc_dto \<Rightarrow> send_result io" where
  "BtcServiceV1_send env dto =
     catch_rewrap
       (bind_io (resolve_inputs env dto) (\<lambda>r.
        bind_io (build_signed env dto (r_prev r)) (\<lambda>built.
        bind_io (settle_fee env (r_feePerByte r) (previousOutputIndex (r_prev r)) built)
          (\<lambda>s.
        bind_io (check_balance env dto (r_address r) (r_feePerByte r) s) (\<lambda>u.
        push env dto (r_address r) (s_hex s))))))"

section \<open>Account-model engine: \<open>Web3Service\<close> (src/unnamed/part_000)\<close>

subsection \<open>Data\<close>

record send_web3_dto = send_dto +
  type :: string
  contract :: string
  gas_limit :: "number option"

record balance_web3_dto =
  address :: string
  balance_type :: string
  balance_contract :: string

text \<open>\<open>contract.methods.transfer(to, amount).encodeABI()\<close>, kept symbolic.\<close>

datatype call_data = Transfer string string

text \<open>
  The two unsigned transaction objects of \<open>send\<close>:
  \<open>{from, nonce, gas, to, value, chainId}\<close> and \<open>{from, to, gas, data}\<close>.
\<close>

datatype unsigned_tx =
    CoinTransaction string nat number string string string
  | TokenTransaction string string number call_data

text \<open>What \<open>sendSignedTransaction\<close> emits first, if anything.\<close>

datatype broadcast_event = ReceiptEvent string | ErrorEvent string | NoEvent

text \<open>A promise the method awaits without a timeout either settles or never does.\<close>

datatype 'a awaited = Settled 'a | NeverSettles

text \<open>The object returned by \<open>calculateEstimateGasFees\<close>.\<close>

record gas_quote =
  quote_amount :: string
  tx :: string
  gasLimit :: number
  gasPrice :: number
  estimateGasFees :: string

text \<open>
  Outside the service: web3's local utilities, the helper \<open>getAddressByPrivateKey\<close> of
  \<open>common/helper/helper.function\<close> (a parameter; it derives the address locally), and the
  answers of the RPC node. \<open>fromWei_string\<close> stands for \<open>Web3.utils.fromWei\<close> applied to
  the text of a number, \<open>fromWei_NaN_message\<close> for the message of the error it throws on
  the text \<open>NaN\<close>.
\<close>

record web3_env =
  isAddress :: "string \<Rightarrow> bool"
  getAddressByPrivateKey :: "string \<Rightarrow> string + string"
  toWei_ether :: "number \<Rightarrow> string + string"
  fromWei_string :: "number \<Rightarrow> string + string"
  fromWei_NaN_message :: string
  signTransaction :: "unsigned_tx option \<Rightarrow> string \<Rightarrow> string + string"
  eth_getBalance :: "string \<Rightarrow> string + number"
  eth_getGasPrice :: "string + number"
  eth_getTransactionCount :: "string \<Rightarrow> string + nat"
  call_decimals :: "string \<Rightarrow> string + nat"
  call_balanceOf :: "string \<Rightarrow> string \<Rightarrow> string + number"
  estimateGas_transfer :: "string \<Rightarrow> string \<Rightarrow> string \<Rightarrow> string \<Rightarrow> string + nat"
  sendSignedTransaction :: "string \<Rightarrow> broadcast_event"

subsection \<open>Number formatting\<close>

text \<open>
  \<open>parseInt(String(x))\<close>: \<open>String\<close> prints a number between \<open>1e-6\<close> and \<open>1e21\<close> in
  positional notation and \<open>parseInt\<close> reads its integer part, so the result is \<open>x\<close>
  truncated towards zero. Gas amounts are far inside that range.
\<close>

definition parseInt_String :: "number \<Rightarrow> int" where
  "parseInt_String x = (if 0 \<le> x then \<lfloor>x\<rfloor> else \<lceil>x\<rceil>)"

text \<open>
  IEEE-754 doubles, as far as the token amount needs them: a double is a real of the
  form \<open>m * 2^e\<close> with \<open>m < 2^53\<close>, and every arithmetic result is rounded to the nearest
  one, ties to the even \<open>m\<close>. Overflow to infinity and subnormal numbers are left out.
  \<open>bits n\<close> is the length of \<open>n\<close> in binary, \<open>digits10 n\<close> in decimal; from them come
  the binary and the decimal exponent of a positive real, the floor of its logarithm.
\<close>

fun bits :: "nat \<Rightarrow> nat" where
  "bits n = (if n = 0 then 0 else Suc (bits (n div 2)))"

declare bits.simps [simp del]

fun digits10 :: "nat \<Rightarrow> nat" where
  "digits10 n = (if n = 0 then 0 else Suc (digits10 (n div 10)))"

declare digits10.simps [simp del]

definition ipow :: "real \<Rightarrow> int \<Rightarrow> real" where
  "ipow b k = (if 0 \<le> k then b ^ nat k else 1 / b ^ nat (- k))"

definition binary_exponent :: "real \<Rightarrow> int" where
  "binary_exponent x =
     (if 1 \<le> x then int (bits (nat \<lfloor>x\<rfloor>)) - 1 else - int (bits (nat \<lceil>1 / x\<rceil> - 1)))"

definition decimal_exponent :: "real \<Rightarrow> int" where
  "decimal_exponent x =
     (if 1 \<le> x then int (digits10 (nat \<lfloor>x\<rfloor>)) - 1
      else - int (digits10 (nat \<lceil>1 / x\<rceil> - 1)))"

definition round_half_even :: "real \<Rightarrow> int" where
  "round_half_even q =
     (let f = \<lfloor>q\<rfloor>; r = q - of_int f in
      if r < 1 / 2 then f else if 1 / 2 < r then f + 1
      else if even f then f else f + 1)"

text \<open>The double nearest to a real.\<close>

definition fl :: "real \<Rightarrow> number" where
  "fl x =
     (if x = 0 then 0
      else let e = binary_exponent \<bar>x\<bar> - 52;
               m = round_half_even (\<bar>x\<bar> / ipow 2 e)
           in sgn x * of_int m * ipow 2 e)"

text \<open>
  The decimal digits the number format starts from. An integer below \<open>2^53\<close> is taken
  digit by digit. Any other double is taken in its shortest form: the decimal with the
  fewest significant digits, at most 17, that reads back as the same double, the nearer
  one when two of that length do. \<open>round_trip_candidate x n\<close> looks at the two decimals
  of \<open>n\<close> significant digits around \<open>x\<close>.
\<close>

definition round_trip_candidate :: "number \<Rightarrow> nat \<Rightarrow> real option" where
  "round_trip_candidate x n =
     (let s = ipow 10 (decimal_exponent x - int n + 1);
          lo = of_int \<lfloor>x / s\<rfloor> * s;
          hi = lo + s in
      if fl lo = x \<and> fl hi = x then Some (if x - lo \<le> hi - x then lo else hi)
      else if fl lo = x then Some lo
      else if fl hi = x then Some hi
      else None)"

function shortest_from :: "number \<Rightarrow> nat \<Rightarrow> real" where
  "shortest_from x n =
     (if 17 < n then x
      else case round_trip_candidate x n of
             Some c \<Rightarrow> c
           | None \<Rightarrow> shortest_from x (Suc n))"
  by pat_completeness auto
termination
  by (relation "measure (\<lambda>(x, n). 18 - n)") auto

declare shortest_from.simps [simp del]

definition printed_value :: "number \<Rightarrow> real" where
  "printed_value x =
     (if x < 2 ^ 53 \<and> of_int \<lfloor>x\<rfloor> = x then x else shortest_from x 1)"

text \<open>
  \<open>x.toLocaleString('fullwide', { useGrouping: false })\<close>: \<open>fullwide\<close> names no locale,
  so the default number format applies (taken to be an English one: ASCII digits and a
  point). It prints the digits above in positional notation, padded with zeros, without
  grouping separators and never with an exponent, with at most three fraction digits,
  rounded half away from zero, trailing zeros dropped.
\<close>

definition fraction_digits :: "nat \<Rightarrow> string" where
  "fraction_digits f =
     (let d1 = f div 100; d2 = (f div 10) mod 10; d3 = f mod 10 in
      if d3 \<noteq> 0 then [digit_char d1, digit_char d2, digit_char d3]
      else if d2 \<noteq> 0 then [digit_char d1, digit_char d2]
      else [digit_char d1])"

definition toLocaleString_fullwide :: "number \<Rightarrow> string" where
  "toLocaleString_fullwide x =
     (let thousandths = nat \<lfloor>printed_value \<bar>x\<bar> * 1000 + 1 / 2\<rfloor>;
          whole = thousandths div 1000;
          frac = thousandths mod 1000 in
      (if x < 0 then ''-'' else []) @ String_nat whole
        @ (if frac = 0 then [] else ''.'' @ fraction_digits frac))"

text \<open>\<open>web3.utils.fromWei(wei, 'ether')\<close> read back by \<open>parseFloat\<close>.\<close>

definition fromWei_ether :: "number \<Rightarrow> number" where
  "fromWei_ether wei = wei / 10 ^ 18"

subsection \<open>Operations\<close>

text \<open>Lines 8-16.\<close>

definition getContractDecimal :: "web3_env \<Rightarrow> string \<Rightarrow> nat io" where
  "getContractDecimal env c = request (RpcDecimals c) (call_decimals env c)"

definition balanceCall :: "web3_env \<Rightarrow> string \<Rightarrow> string \<Rightarrow> number io" where
  "balanceCall env c a = request (RpcBalanceOf c a) (call_balanceOf env c a)"

text \<open>
  Line 34, \<open>Web3.utils.fromWei(gasFees.toString())\<close>. The text of \<open>NaN\<close> is no number
  for web3's parser, which throws; the wording of its message belongs to the library.
\<close>

definition fromWei_toString :: "web3_env \<Rightarrow> number option \<Rightarrow> string io" where
  "fromWei_toString env gasFees =
     (case gasFees of
        None \<Rightarrow> throw_io (HttpException (fromWei_NaN_message env) INTERNAL_SERVER_ERROR)
      | Some wei \<Rightarrow> library (fromWei_string env wei))"

text \<open>
  Lines 18-43. \<open>Number(undefined)\<close> is \<open>NaN\<close>, for which \<open>> 0\<close> is false, so an absent
  gas limit takes the estimating branch like a zero or negative one; \<open>gasFees\<close>, computed
  on line 22 from the gas limit of the request, is \<open>NaN\<close> then and is not computed
  again from the estimate.
\<close>

definition calculateEstimateGasFees ::
    "web3_env \<Rightarrow> string \<Rightarrow> string \<Rightarrow> send_web3_dto \<Rightarrow> gas_quote io" where
  "calculateEstimateGasFees env amt addr dto =
     bind_io (request RpcGetGasPrice (eth_getGasPrice env)) (\<lambda>gasPrice.
     let gasFees = map_option (\<lambda>g. g * gasPrice) (gas_limit dto) in
     bind_io
       (if (case gas_limit dto of Some g \<Rightarrow> g > 0 | None \<Rightarrow> False)
        then return_io (the (gas_limit dto))
        else
          bind_io (request (RpcEstimateGasTransfer (contract dto) (to_address dto) amt addr)
                     (estimateGas_transfer env (contract dto) (to_address dto) amt addr))
            (\<lambda>estimateGas.
               return_io (real_of_int (parseInt_String (real estimateGas / 2))
                            + real estimateGas)))
       (\<lambda>usedGasLimit.
     bind_io (fromWei_toString env gasFees) (\<lambda>finalGasFees.
     return_io \<lparr>quote_amount = amt, tx = ''ok'', gasLimit = usedGasLimit,
                gasPrice = gasPrice, estimateGasFees = finalGasFees\<rparr>)))"

text \<open>Lines 68-128. \<open>balance\<close> stays \<open>undefined\<close> (\<open>None\<close>) unless a branch assigns it.\<close>

definition Web3Service_balance ::
    "web3_env \<Rightarrow> string \<Rightarrow> balance_web3_dto \<Rightarrow> number option data_reply io" where
  "Web3Service_balance env chainLink dto =
     catch_rewrap
       (if isAddress env (address dto)
        then
          bind_io
            (if balance_type dto = ''coin''
             then bind_io (request (RpcGetBalance (address dto))
                             (eth_getBalance env (address dto)))
                    (\<lambda>getBalance. return_io (Some (parseFloat (fromWei_ether getBalance))))
             else return_io None) (\<lambda>balance1.
          bind_io
            (if balance_type dto = ''token''
             then
               if isAddress env (balance_contract dto)
               then
                 bind_io (getContractDecimal env (balance_contract dto)) (\<lambda>decimal.
                 bind_io (balanceCall env (balance_contract dto) (address dto)) (\<lambda>bc.
                 return_io (Some (bc / 10 ^ decimal))))
               else throw_io (HttpException ''Incorrect contract address'' BAD_REQUEST)
             else return_io balance1) (\<lambda>balance.
          return_io \<lparr>status = True, data = balance\<rparr>))
        else throw_io (HttpException ''Incorrect address'' BAD_REQUEST))"

text \<open>Lines 140-157: the coin branch of \<open>send\<close>.\<close>

definition coin_transaction ::
    "web3_env \<Rightarrow> string \<Rightarrow> string \<Rightarrow> send_web3_dto \<Rightarrow> unsigned_tx io" where
  "coin_transaction env chainId addr dto =
     bind_io (library (toWei_ether env (amount dto))) (\<lambda>amt.
     bind_io (request (RpcGetTransactionCount addr) (eth_getTransactionCount env addr))
       (\<lambda>nonce.
     let usedGasLimit =
           (case gas_limit dto of Some g \<Rightarrow> if g > 0 then g else 63000 | None \<Rightarrow> 63000)
     in return_io (CoinTransaction addr nonce usedGasLimit (to_address dto) amt chainId)))"

text \<open>Lines 159-199: the token branch of \<open>send\<close>.\<close>

text \<open>
  Lines 169-171, \<open>(amount * Math.pow(10, decimal)).toLocaleString(...)\<close>: the power and
  the product are doubles. The amount of the request is one already.
\<close>

definition token_amount :: "number \<Rightarrow> nat \<Rightarrow> string" where
  "token_amount a decimal = toLocaleString_fullwide (fl (a * fl (10 ^ decimal)))"

definition token_transaction ::
    "web3_env \<Rightarrow> string \<Rightarrow> send_web3_dto \<Rightarrow> unsigned_tx io" where
  "token_transaction env addr dto =
     (if isAddress env (contract dto)
      then
        bind_io (getContractDecimal env (contract dto)) (\<lambda>decimal.
        let amt = token_amount (amount dto) decimal in
        bind_io (calculateEstimateGasFees env amt addr dto) (\<lambda>fees.
        return_io (TokenTransaction addr (contract dto) (gasLimit fees)
                     (Transfer (to_address dto) amt))))
      else throw_io (HttpException ''Incorrect contract address'' BAD_REQUEST))"

text \<open>
  Lines 130-233. \<open>transaction\<close> is \<open>undefined\<close> (\<open>None\<close>) when the type is neither
  \<open>coin\<close> nor \<open>token\<close>; the signing call then receives it as it is.
\<close>

definition unsigned_transaction ::
    "web3_env \<Rightarrow> string \<Rightarrow> string \<Rightarrow> send_web3_dto \<Rightarrow> unsigned_tx option io" where
  "unsigned_transaction env chainId addr dto =
     bind_io
       (if type dto = ''coin''
        then bind_io (coin_transaction env chainId addr dto) (\<lambda>t. return_io (Some t))
        else return_io None) (\<lambda>transaction1.
     if type dto = ''token''
     then bind_io (token_transaction env addr dto) (\<lambda>t. return_io (Some t))
     else return_io transaction1)"

definition Web3Service_send ::
    "web3_env \<Rightarrow> string \<Rightarrow> string \<Rightarrow> send_web3_dto \<Rightarrow> string data_reply awaited io" where
  "Web3Service_send env chainLink chainId dto =
     catch_rewrap
       (bind_io (library (getAddressByPrivateKey env (private_key dto))) (\<lambda>addr.
        if isAddress env (to_address dto)
        then
          bind_io (unsigned_transaction env chainId addr dto) (\<lambda>transaction.
          bind_io (library (signTransaction env transaction (private_key dto))) (\<lambda>raw.
          case sendSignedTransaction env raw of
            ReceiptEvent receipt \<Rightarrow>
              ([RpcSendSignedTransaction raw], Inr (Settled \<lparr>status = True, data = receipt\<rparr>))
          | ErrorEvent m \<Rightarrow>
              ([RpcSendSignedTransaction raw], Inl (HttpException m INTERNAL_SERVER_ERROR))
          | NoEvent \<Rightarrow> ([RpcSendSignedTransaction raw], Inr NeverSettles)))
        else throw_io (HttpException ''Incorrect recipient address'' BAD_REQUEST)))"

section \<open>Concrete worlds\<close>

text \<open>
  Modelled from the spec: the helpers \<open>convertToSatoshi\<close> and \<open>convertFromSatoshi\<close> of
  \<open>common/helper/helper.function\<close>, after "converted from atomic to human units
  consistent with the chain's base-unit exponent (8 decimals for UTXO-satoshi)". They
  only fill the parameters of the concrete worlds below.
\<close>

definition convertToSatoshi_spec :: "number \<Rightarrow> number" where
  "convertToSatoshi_spec x = x * 10 ^ 8"

definition convertFromSatoshi_spec :: "number \<Rightarrow> number" where
  "convertFromSatoshi_spec x = x / 10 ^ 8"

text \<open>
  A source address with two past transactions; the later one pays it in its first
  output. The hex form shows each output as \<open>address:satoshi;\<close>.
\<close>

definition example_history :: "explorer_tx list" where
  "example_history =
     [\<lparr>hash = ''aa11'',
       outputs = [\<lparr>addresses = Some [''1Other'']\<rparr>, \<lparr>addresses = Some [''1Source'']\<rparr>]\<rparr>,
      \<lparr>hash = ''bb22'',
       outputs = [\<lparr>addresses = Some [''1Source'', ''1Cosigner'']\<rparr>,
                  \<lparr>addresses = Some [''1Other'']\<rparr>]\<rparr>]"

definition example_env :: btc_env where
  "example_env =
     \<lparr>fromWIF_address = (\<lambda>k. if k = ''KxSourceKey'' then Inr ''1Source''
                              else Inl ''Invalid checksum''),
      validate = (\<lambda>a. a = ''1Source'' \<or> a = ''1Dest''),
      convertToSatoshi = convertToSatoshi_spec,
      convertFromSatoshi = convertFromSatoshi_spec,
      txb_sign_build = (\<lambda>k h i a v. Inr ''30450221''),
      byteLength = (\<lambda>t. 192),
      toHex = (\<lambda>t. Inr (concat (map (\<lambda>out. out_address out @ '':''
                              @ String_nat (nat \<lfloor>value out\<rfloor>) @ '';'') (outs t)))),
      String_number = (\<lambda>x. ''0.001''),
      Date_now = 1700000000000,
      fees_recommended = Inr 10,
      addrs_full = (\<lambda>a. if a = ''1Source'' then Inr example_history
                         else Inl ''Request failed with status code 404''),
      dashboard_address = (\<lambda>a. if a = ''1Source'' then Inr (Some 200000) else Inr None),
      push_transaction = (\<lambda>h. Accepted ''cc33'')\<rparr>"

definition example_dto :: send_btc_dto where
  "example_dto =
     \<lparr>private_key = ''KxSourceKey'', to_address = ''1Dest'', amount = 1 / 1000,
      fee = Some 10\<rparr>"

text \<open>The transaction that send builds in this world, before and after the fee is set.\<close>

definition example_built :: transaction where
  "example_built =
     \<lparr>ins = [\<lparr>in_hash = ''bb22'', in_index = 0, script = ''30450221''\<rparr>],
      outs = [\<lparr>out_address = ''1Dest'', value = 100000\<rparr>]\<rparr>"

definition example_settled :: settled where
  "example_settled =
     \<lparr>s_calculateFee = 1920,
      s_transaction = example_built\<lparr>outs := [\<lparr>out_address = ''1Dest'', value = 1920\<rparr>]\<rparr>,
      s_hex = ''1Dest:1920;''\<rparr>"

definition example_resolved :: resolved where
  "example_resolved =
     \<lparr>r_address = ''1Source'', r_feePerByte = 10,
      r_prev = \<lparr>previousTransactionHash = ''bb22'', previousOutputIndex = 0\<rparr>\<rparr>"

text \<open>Variations: the history, the balance, the push endpoint, the estimator.\<close>

definition empty_history_env :: btc_env where
  "empty_history_env = example_env\<lparr>addrs_full := \<lambda>a. Inr []\<rparr>"

text \<open>
  The same history followed by a later transaction that does not pay the source address;
  and a history whose last transaction has a data output, without addresses, and no
  output of the source address.
\<close>

definition foreign_history :: "explorer_tx list" where
  "foreign_history =
     example_history @ [\<lparr>hash = ''dd44'', outputs = [\<lparr>addresses = Some [''1Other'']\<rparr>]\<rparr>]"

definition foreign_history_env :: btc_env where
  "foreign_history_env = example_env\<lparr>addrs_full := \<lambda>a. Inr foreign_history\<rparr>"

definition data_output_history :: "explorer_tx list" where
  "data_output_history =
     [\<lparr>hash = ''ee55'',
       outputs = [\<lparr>addresses = None\<rparr>, \<lparr>addresses = Some [''1Other'']\<rparr>]\<rparr>]"

definition data_output_env :: btc_env where
  "data_output_env = example_env\<lparr>addrs_full := \<lambda>a. Inr data_output_history\<rparr>"

definition second_output_env :: btc_env where
  "second_output_env = example_env\<lparr>addrs_full := \<lambda>a. Inr (take 1 example_history)\<rparr>"

definition tight_balance_env :: btc_env where
  "tight_balance_env = example_env\<lparr>dashboard_address := \<lambda>a. Inr (Some 101920)\<rparr>"

definition poor_env :: btc_env where
  "poor_env = example_env\<lparr>dashboard_address := \<lambda>a. Inr (Some 1000)\<rparr>"

definition conflict_env :: btc_env where
  "conflict_env = example_env
     \<lparr>push_transaction := \<lambda>h. Refused ''Invalid transaction. Error: txn-mempool-conflict''\<rparr>"

definition dust_env :: btc_env where
  "dust_env = example_env\<lparr>push_transaction := \<lambda>h. Refused ''Invalid transaction. Error: dust''\<rparr>"

definition offline_estimator_env :: btc_env where
  "offline_estimator_env =
     example_env\<lparr>fees_recommended := Inl ''getaddrinfo ENOTFOUND bitcoinfees.earn.com''\<rparr>"

definition malformed_dto :: send_btc_dto where
  "malformed_dto =
     \<lparr>private_key = ''KxSourceKey'', to_address = ''not-an-address'', amount = 1 / 1000,
      fee = None\<rparr>"

text \<open>The message of number-to-bn, the parser behind \<open>fromWei\<close> in web3 1.x.\<close>

definition number_to_bn_message :: string where
  "number_to_bn_message =
     ''[number-to-bn] while converting number '' @ [CHR 0x22] @ ''NaN'' @ [CHR 0x22]
       @ '' to BN.js instance, error: invalid number value. Value must be an integer, hex string, BN or BigNumber instance. Note, decimals are not supported.''"

text \<open>
  An RPC node and a six-decimal token; a request with a gas limit of zero, the same
  request without a gas limit, and one with a malformed recipient.
\<close>

definition example_web3 :: web3_env where
  "example_web3 =
     \<lparr>isAddress = (\<lambda>a. a = ''0xSource'' \<or> a = ''0xDest'' \<or> a = ''0xToken''),
      getAddressByPrivateKey = (\<lambda>k. if k = ''0xKey'' then Inr ''0xSource''
                                     else Inl ''Private key must be 32 bytes long''),
      toWei_ether = (\<lambda>x. Inr ''1500000000000000000''),
      fromWei_string = (\<lambda>wei. Inr ''0''),
      fromWei_NaN_message = number_to_bn_message,
      signTransaction = (\<lambda>t k. case t of
                                  None \<Rightarrow> Inl (undefined_read_message ''gas'')
                                | Some u \<Rightarrow> Inr ''0xf86b''),
      eth_getBalance = (\<lambda>a. Inr (2 * 10 ^ 18)),
      eth_getGasPrice = Inr 5000000000,
      eth_getTransactionCount = (\<lambda>a. Inr 7),
      call_decimals = (\<lambda>c. Inr 6),
      call_balanceOf = (\<lambda>c a. Inr 2500000),
      estimateGas_transfer = (\<lambda>c t amt f. Inr 51001),
      sendSignedTransaction = (\<lambda>raw. ReceiptEvent ''0xreceipt'')\<rparr>"

definition example_token_dto :: send_web3_dto where
  "example_token_dto =
     \<lparr>private_key = ''0xKey'', to_address = ''0xDest'', amount = 3 / 2,
      type = ''token'', contract = ''0xToken'', gas_limit = Some 0\<rparr>"

definition no_limit_dto :: send_web3_dto where
  "no_limit_dto = example_token_dto\<lparr>gas_limit := None\<rparr>"

definition example_balance_dto :: balance_web3_dto where
  "example_balance_dto =
     \<lparr>address = ''0xSource'', balance_type = ''nft'', balance_contract = ''0xToken''\<rparr>"

definition malformed_web3_dto :: send_web3_dto where
  "malformed_web3_dto = example_token_dto\<lparr>to_address := ''not-an-address''\<rparr>"

section \<open>Vocabulary of the properties\<close>

text \<open>
  An output lists an address; a transaction of the history pays the address: one of its
  outputs lists it.
\<close>

definition lists :: "string \<Rightarrow> explorer_output \<Rightarrow> bool" where
  "lists a output = (case addresses output of None \<Rightarrow> False | Some listed \<Rightarrow> a \<in> set listed)"

definition receives :: "string \<Rightarrow> explorer_tx \<Rightarrow> bool" where
  "receives a t = (\<exists>output \<in> set (outputs t). lists a output)"


section \<open>Properties\<close>

subsection \<open>The computation type\<close>

lemma calls_return: "calls (return_io x) = []"
  by (simp add: calls_def return_io_def)

lemma outcome_return: "outcome (return_io x) = Inr x"
  by (simp add: outcome_def return_io_def)

lemma calls_throw: "calls (throw_io e) = []"
  by (simp add: calls_def throw_io_def)

lemma outcome_throw: "outcome (throw_io e) = Inl e"
  by (simp add: outcome_def throw_io_def)

lemma calls_request: "calls (request c r) = [c]"
  by (simp add: calls_def request_def split: sum.splits)

lemma outcome_request:
  "outcome (request c r) =
     (case r of Inl m \<Rightarrow> Inl (HttpException m INTERNAL_SERVER_ERROR) | Inr x \<Rightarrow> Inr x)"
  by (simp add: outcome_def request_def split: sum.splits)

lemma calls_library: "calls (library r) = []"
  by (simp add: calls_def library_def split: sum.splits)

lemma outcome_library:
  "outcome (library r) =
     (case r of Inl m \<Rightarrow> Inl (HttpException m INTERNAL_SERVER_ERROR) | Inr x \<Rightarrow> Inr x)"
  by (simp add: outcome_def library_def split: sum.splits)

lemma calls_bind:
  "calls (bind_io m f) =
     (case outcome m of Inl e \<Rightarrow> calls m | Inr x \<Rightarrow> calls m @ calls (f x))"
  by (cases m) (simp add: calls_def outcome_def bind_io_def split: sum.splits prod.splits)

lemma outcome_bind:
  "outcome (bind_io m f) = (case outcome m of Inl e \<Rightarrow> Inl e | Inr x \<Rightarrow> outcome (f x))"
  by (cases m) (simp add: outcome_def bind_io_def split: sum.splits prod.splits)

lemma calls_catch: "calls (catch_rewrap m) = calls m"
  by (cases m) (simp add: calls_def catch_rewrap_def split: sum.splits)

lemma outcome_catch:
  "outcome (catch_rewrap m) =
     (case outcome m of
        Inl e \<Rightarrow> Inl (HttpException (e_message e) INTERNAL_SERVER_ERROR)
      | Inr x \<Rightarrow> Inr x)"
  by (cases m) (simp add: outcome_def catch_rewrap_def split: sum.splits)

lemma io_eqI: "calls m = calls m' \<Longrightarrow> outcome m = outcome m' \<Longrightarrow> m = m'"
  by (simp add: calls_def outcome_def prod_eq_iff)

lemmas io_simps =
  calls_return outcome_return calls_throw outcome_throw calls_request outcome_request
  calls_library outcome_library calls_bind outcome_bind calls_catch outcome_catch

subsection \<open>Resolving the prior output\<close>

lemma find_output_calls: "calls (find_output a os) = []"
  by (induction os) (simp_all add: io_simps split: option.splits)

lemma find_output_found:
  "outcome (find_output a os) = Inr (Some out) \<Longrightarrow>
     \<exists>i. indexOf_from os out k = k + int i \<and> i < length os \<and> os ! i = out \<and>
         lists a out \<and> (\<forall>j<i. \<not> lists a (os ! j))"
proof (induction os arbitrary: k)
  case Nil
  then show ?case by (simp add: io_simps)
next
  case (Cons y ys)
  from Cons.prems obtain listed where y: "addresses y = Some listed"
    by (cases "addresses y") (auto simp: io_simps)
  show ?case
  proof (cases "a \<in> set listed")
    case True
    with Cons.prems y have "out = y" by (simp add: io_simps)
    with True y show ?thesis by (intro exI[of _ 0]) (simp add: lists_def)
  next
    case False
    with Cons.prems y have f: "outcome (find_output a ys) = Inr (Some out)" by simp
    from Cons.IH[OF f, of "k + 1"] obtain i where
      i: "indexOf_from ys out (k + 1) = k + 1 + int i" "i < length ys" "ys ! i = out"
         "lists a out" "\<forall>j<i. \<not> lists a (ys ! j)"
      by blast
    from False y have ny: "\<not> lists a y" by (simp add: lists_def)
    with i(4) have "y \<noteq> out" by blast
    with i ny show ?thesis
      by (intro exI[of _ "Suc i"]) (auto simp: less_Suc_eq_0_disj)
  qed
qed

lemma find_output_index:
  "outcome (find_output a os) = Inr (Some out) \<Longrightarrow>
     \<exists>i. indexOf os out = int i \<and> i < length os \<and> lists a (os ! i)
         \<and> (\<forall>j<i. \<not> lists a (os ! j))"
  using find_output_found[of a os out 0] by (auto simp: indexOf_def)

text \<open>Where every output carries its address list, the search is an ordinary one.\<close>

lemma find_output_listed:
  assumes "\<forall>out \<in> set os. addresses out \<noteq> None"
  shows "outcome (find_output a os) = Inr (find (lists a) os)"
  using assms
  by (induction os) (auto simp: io_simps lists_def split: option.splits)

lemma find_lists_None: "find (lists a) (outputs t) = None \<longleftrightarrow> \<not> receives a t"
  by (auto simp: find_None_iff receives_def)

lemma previous_calls:
  "calls (getPreviousTransactionHashAndOutputIndex env a amt) = [GetAddrsFull a]"
  by (simp add: getPreviousTransactionHashAndOutputIndex_def io_simps find_output_calls Let_def
           split: sum.splits option.splits)

lemma previous_outcome:
  assumes "addrs_full env a = Inr txs"
  shows "outcome (getPreviousTransactionHashAndOutputIndex env a amt) =
     (if txs = []
      then Inl (HttpException ''No previous transactions found'' INTERNAL_SERVER_ERROR)
      else case outcome (find_output a (outputs (last txs))) of
             Inl e \<Rightarrow> Inl (HttpException (e_message e) INTERNAL_SERVER_ERROR)
           | Inr None \<Rightarrow>
               Inl (HttpException ''Previous output not found'' INTERNAL_SERVER_ERROR)
           | Inr (Some out) \<Rightarrow>
               Inr \<lparr>previousTransactionHash = hash (last txs),
                    previousOutputIndex = indexOf (outputs (last txs)) out\<rparr>)"
  using assms
  by (simp add: getPreviousTransactionHashAndOutputIndex_def io_simps Let_def last_conv_nth
           split: option.splits sum.splits)

lemma previous_failed_fetch:
  assumes "addrs_full env a = Inl m"
  shows "outcome (getPreviousTransactionHashAndOutputIndex env a amt) =
           Inl (HttpException m INTERNAL_SERVER_ERROR)"
  using assms by (simp add: getPreviousTransactionHashAndOutputIndex_def io_simps)

lemma previous_index_nonneg:
  assumes "outcome (getPreviousTransactionHashAndOutputIndex env a amt) = Inr p"
  shows "0 \<le> previousOutputIndex p"
proof (cases "addrs_full env a")
  case (Inl m)
  with assms show ?thesis by (simp add: previous_failed_fetch)
next
  case (Inr txs)
  from assms obtain out where
    f: "outcome (find_output a (outputs (last txs))) = Inr (Some out)"
    and p: "previousOutputIndex p = indexOf (outputs (last txs)) out"
    by (auto simp: previous_outcome[OF Inr] split: if_splits option.splits sum.splits)
  from find_output_index[OF f] p show ?thesis by auto
qed

subsection \<open>Stages of the UTXO send\<close>

lemma build_signed_calls: "calls (build_signed env dto p) = []"
  by (simp add: build_signed_def io_simps split: sum.splits)

lemma build_signed_shape:
  assumes "outcome (build_signed env dto p) = Inr built"
  shows "outs built = [\<lparr>out_address = to_address dto,
                         value = convertToSatoshi env (amount dto)\<rparr>]"
    and "length (ins built) = 1"
  using assms by (auto simp: build_signed_def io_simps split: sum.splits)

lemma settle_fee_calls: "calls (settle_fee env f i built) = []"
  by (simp add: settle_fee_def set_out_value_def io_simps Let_def split: sum.splits)

lemma balance_no_push: "\<not> list_ex is_push (calls (BtcServiceV1_balance env a))"
  by (simp add: BtcServiceV1_balance_def io_simps split: sum.splits option.splits)

lemma check_balance_no_push: "\<not> list_ex is_push (calls (check_balance env dto a f s))"
  using balance_no_push[of env a]
  by (simp add: check_balance_def io_simps split: sum.splits)

lemma average_fee_no_push: "\<not> list_ex is_push (calls (calculateAverageFee env))"
  by (simp add: calculateAverageFee_def io_simps)

lemma resolve_inputs_no_push: "\<not> list_ex is_push (calls (resolve_inputs env dto))"
  using average_fee_no_push[of env]
  by (simp add: resolve_inputs_def getAddressFromPrivateKey_def io_simps previous_calls Let_def
           split: sum.splits option.splits)

lemma push_calls: "calls (push env dto a h) = [PushTransaction h]"
  by (simp add: push_def calls_def)

lemma push_returns: "\<exists>x. outcome (push env dto a h) = Inr x"
  by (simp add: push_def outcome_def)

text \<open>The POST is the last step, reached only when every stage before it returned.\<close>

lemma send_push_iff:
  "list_ex is_push (calls (BtcServiceV1_send env dto)) \<longleftrightarrow>
     (\<exists>r built s.
        outcome (resolve_inputs env dto) = Inr r \<and>
        outcome (build_signed env dto (r_prev r)) = Inr built \<and>
        outcome (settle_fee env (r_feePerByte r) (previousOutputIndex (r_prev r)) built) = Inr s \<and>
        outcome (check_balance env dto (r_address r) (r_feePerByte r) s) = Inr ())"
  using resolve_inputs_no_push[of env dto]
  by (auto simp: BtcServiceV1_send_def io_simps build_signed_calls settle_fee_calls
        check_balance_no_push push_calls split: sum.splits)

lemma send_reaches_push:
  assumes "outcome (resolve_inputs env dto) = Inr r"
    and "outcome (build_signed env dto (r_prev r)) = Inr built"
    and "outcome (settle_fee env (r_feePerByte r) (previousOutputIndex (r_prev r)) built) = Inr s"
    and "outcome (check_balance env dto (r_address r) (r_feePerByte r) s) = Inr u"
  shows "outcome (BtcServiceV1_send env dto) = outcome (push env dto (r_address r) (s_hex s))"
    and "calls (BtcServiceV1_send env dto) =
           calls (resolve_inputs env dto) @ calls (check_balance env dto (r_address r) (r_feePerByte r) s)
             @ [PushTransaction (s_hex s)]"
  using assms push_returns[of env dto "r_address r" "s_hex s"]
  by (auto simp: BtcServiceV1_send_def io_simps build_signed_calls settle_fee_calls
        push_calls)

lemma send_pushed_hex:
  assumes "PushTransaction h \<in> set (calls (BtcServiceV1_send env dto))"
  shows "\<exists>r built s.
        outcome (resolve_inputs env dto) = Inr r \<and>
        outcome (build_signed env dto (r_prev r)) = Inr built \<and>
        outcome (settle_fee env (r_feePerByte r) (previousOutputIndex (r_prev r)) built) = Inr s \<and>
        outcome (check_balance env dto (r_address r) (r_feePerByte r) s) = Inr () \<and>
        h = s_hex s"
proof -
  from assms have "list_ex is_push (calls (BtcServiceV1_send env dto))"
    by (auto simp: list_ex_iff intro!: bexI[of _ "PushTransaction h"])
  then obtain r built s where st:
    "outcome (resolve_inputs env dto) = Inr r"
    "outcome (build_signed env dto (r_prev r)) = Inr built"
    "outcome (settle_fee env (r_feePerByte r) (previousOutputIndex (r_prev r)) built) = Inr s"
    "outcome (check_balance env dto (r_address r) (r_feePerByte r) s) = Inr ()"
    unfolding send_push_iff by blast
  have "PushTransaction h \<notin> set (calls (resolve_inputs env dto))"
    using resolve_inputs_no_push[of env dto] by (auto simp: list_ex_iff)
  moreover have "PushTransaction h \<notin> set (calls (check_balance env dto (r_address r) (r_feePerByte r) s))"
    using check_balance_no_push[of env dto "r_address r" "r_feePerByte r" s]
    by (auto simp: list_ex_iff)
  ultimately have "h = s_hex s"
    using assms send_reaches_push(2)[OF st] by auto
  with st show ?thesis by blast
qed

lemma send_fails_without_push:
  assumes "\<not> list_ex is_push (calls (BtcServiceV1_send env dto))"
  shows "\<exists>e. outcome (BtcServiceV1_send env dto) = Inl e"
  using assms
  by (auto simp: BtcServiceV1_send_def io_simps build_signed_calls settle_fee_calls
        push_calls split: sum.splits)

lemma send_resolve_failure:
  assumes "outcome (resolve_inputs env dto) = Inl e"
  shows "outcome (BtcServiceV1_send env dto) =
           Inl (HttpException (e_message e) INTERNAL_SERVER_ERROR)"
    and "calls (BtcServiceV1_send env dto) = calls (resolve_inputs env dto)"
  using assms by (simp_all add: BtcServiceV1_send_def io_simps)

lemma catch_status:
  assumes "outcome (catch_rewrap m) = Inl e"
  shows "e = HttpException (e_message e) INTERNAL_SERVER_ERROR"
  using assms by (auto simp: io_simps split: sum.splits)

lemma previous_failure_status:
  assumes "outcome (getPreviousTransactionHashAndOutputIndex env a amt) = Inl e"
  shows "e = HttpException (e_message e) INTERNAL_SERVER_ERROR"
  using assms unfolding getPreviousTransactionHashAndOutputIndex_def by (rule catch_status)

lemma average_fee_outcome:
  "outcome (calculateAverageFee env) =
     (case fees_recommended env of
        Inl m \<Rightarrow> Inl (HttpException m INTERNAL_SERVER_ERROR) | Inr f \<Rightarrow> Inr f)"
  by (simp add: calculateAverageFee_def io_simps split: sum.splits)

lemma resolve_inputs_previous_failure:
  assumes "fromWIF_address env (private_key dto) = Inr a"
    and "outcome (getPreviousTransactionHashAndOutputIndex env a (amount dto)) = Inl e"
  shows "\<exists>e'. outcome (resolve_inputs env dto) = Inl e'"
    and "validate env (to_address dto) \<Longrightarrow>
         (\<exists>f. fee dto = Some f \<and> f \<noteq> 0) \<or> (\<exists>f. fees_recommended env = Inr f) \<Longrightarrow>
         outcome (resolve_inputs env dto) = Inl e"
  using assms
  by (auto simp: resolve_inputs_def getAddressFromPrivateKey_def io_simps Let_def
        average_fee_outcome split: sum.splits option.splits)

subsection \<open>Claims about resolving the prior output\<close>

text \<open>
  C4, as the code has it. The reference to the prior output comes from one request for
  the history of the source address. The transaction selected is the last one of the
  fetched history, taken as the most recent, whether or not it pays the source address;
  earlier transactions are never searched. Whenever a reference is returned, it is the
  hash of that last transaction together with the position of its first output that
  lists the source address. For a last transaction whose outputs all carry an address
  list, a reference is returned when one of them lists the source address, and otherwise
  resolution fails with "Previous output not found", also when an earlier transaction of
  the history pays the address.
\<close>

theorem prior_output_from_last_transaction:
  assumes "addrs_full env a = Inr txs"
  shows "calls (getPreviousTransactionHashAndOutputIndex env a amt) = [GetAddrsFull a] \<and>
     (\<forall>p. outcome (getPreviousTransactionHashAndOutputIndex env a amt) = Inr p \<longrightarrow>
        txs \<noteq> [] \<and>
        previousTransactionHash p = hash (last txs) \<and>
        0 \<le> previousOutputIndex p \<and>
        nat (previousOutputIndex p) < length (outputs (last txs)) \<and>
        lists a (outputs (last txs) ! nat (previousOutputIndex p)) \<and>
        (\<forall>j < nat (previousOutputIndex p). \<not> lists a (outputs (last txs) ! j))) \<and>
     (txs \<noteq> [] \<and> (\<forall>out \<in> set (outputs (last txs)). addresses out \<noteq> None) \<longrightarrow>
        (receives a (last txs) \<longrightarrow>
           (\<exists>p. outcome (getPreviousTransactionHashAndOutputIndex env a amt) = Inr p)) \<and>
        (\<not> receives a (last txs) \<longrightarrow>
           outcome (getPreviousTransactionHashAndOutputIndex env a amt)
             = Inl (HttpException ''Previous output not found'' INTERNAL_SERVER_ERROR)))"
proof (intro conjI allI impI)
  show "calls (getPreviousTransactionHashAndOutputIndex env a amt) = [GetAddrsFull a]"
    by (rule previous_calls)
next
  assume h: "txs \<noteq> [] \<and> (\<forall>out \<in> set (outputs (last txs)). addresses out \<noteq> None)"
  then have f: "outcome (find_output a (outputs (last txs)))
                  = Inr (find (lists a) (outputs (last txs)))"
    by (intro find_output_listed) simp
  {
    assume "receives a (last txs)"
    then obtain out where "find (lists a) (outputs (last txs)) = Some out"
      using find_lists_None[of a "last txs"] by (cases "find (lists a) (outputs (last txs))") auto
    with h f show "\<exists>p. outcome (getPreviousTransactionHashAndOutputIndex env a amt) = Inr p"
      by (simp add: previous_outcome[OF assms])
  }
  {
    assume "\<not> receives a (last txs)"
    then have "find (lists a) (outputs (last txs)) = None"
      by (simp add: find_lists_None)
    with h f show "outcome (getPreviousTransactionHashAndOutputIndex env a amt)
             = Inl (HttpException ''Previous output not found'' INTERNAL_SERVER_ERROR)"
      by (simp add: previous_outcome[OF assms])
  }
next
  fix p
  assume ok: "outcome (getPreviousTransactionHashAndOutputIndex env a amt) = Inr p"
  from ok obtain out where ne: "txs \<noteq> []"
    and f: "outcome (find_output a (outputs (last txs))) = Inr (Some out)"
    and p: "p = \<lparr>previousTransactionHash = hash (last txs),
                  previousOutputIndex = indexOf (outputs (last txs)) out\<rparr>"
    by (auto simp: previous_outcome[OF assms] split: if_splits option.splits sum.splits)
  from find_output_index[OF f] obtain i where i:
    "indexOf (outputs (last txs)) out = int i" "i < length (outputs (last txs))"
    "lists a (outputs (last txs) ! i)" "\<forall>j<i. \<not> lists a (outputs (last txs) ! j)"
    by blast
  show "txs \<noteq> []" by (rule ne)
  show "previousTransactionHash p = hash (last txs)"
    by (simp add: p)
  show "0 \<le> previousOutputIndex p" by (simp add: p i(1))
  show "nat (previousOutputIndex p) < length (outputs (last txs))"
    by (simp add: p i(1,2))
  show "lists a (outputs (last txs) ! nat (previousOutputIndex p))"
    by (simp add: p i(1,3))
  fix j
  assume "j < nat (previousOutputIndex p)"
  then show "\<not> lists a (outputs (last txs) ! j)"
    using i(4) by (simp add: p i(1))
qed

lemma foreign_history_fetched:
  "addrs_full foreign_history_env ''1Source'' = Inr foreign_history"
  by (simp add: foreign_history_env_def)

lemma example_history_fetched:
  "addrs_full example_env ''1Source'' = Inr example_history"
  by (simp add: example_env_def)

lemmas history_eval =
  foreign_history_def example_history_def data_output_history_def receives_def lists_def
  indexOf_def io_simps

theorem prior_output_from_last_transaction_witness:
  "addrs_full example_env ''1Source'' = Inr example_history \<and>
   calls (getPreviousTransactionHashAndOutputIndex example_env ''1Source'' (1 / 1000))
     = [GetAddrsFull ''1Source''] \<and>
   outcome (getPreviousTransactionHashAndOutputIndex example_env ''1Source'' (1 / 1000))
     = Inr \<lparr>previousTransactionHash = ''bb22'', previousOutputIndex = 0\<rparr> \<and>
   hash (last example_history) = ''bb22'' \<and>
   lists ''1Source'' (outputs (last example_history) ! 0) \<and>
   addrs_full foreign_history_env ''1Source'' = Inr foreign_history \<and>
   foreign_history \<noteq> [] \<and>
   map addresses (outputs (last foreign_history)) = [Some [''1Other'']] \<and>
   \<not> receives ''1Source'' (last foreign_history) \<and>
   outcome (getPreviousTransactionHashAndOutputIndex foreign_history_env ''1Source'' (1 / 1000))
     = Inl (HttpException ''Previous output not found'' INTERNAL_SERVER_ERROR)"
proof -
  note t = prior_output_from_last_transaction[OF example_history_fetched, of "1 / 1000"]
  note u = prior_output_from_last_transaction[OF foreign_history_fetched, of "1 / 1000"]
  have o: "outcome (getPreviousTransactionHashAndOutputIndex example_env ''1Source'' (1 / 1000))
     = Inr \<lparr>previousTransactionHash = ''bb22'', previousOutputIndex = 0\<rparr>"
    by (simp add: previous_outcome[OF example_history_fetched] history_eval)
  from t have c: "calls (getPreviousTransactionHashAndOutputIndex example_env ''1Source'' (1 / 1000))
     = [GetAddrsFull ''1Source'']"
    by (rule conjunct1)
  from t[THEN conjunct2, THEN conjunct1, rule_format, OF o] have 1:
    "hash (last example_history) = ''bb22'' \<and>
     lists ''1Source'' (outputs (last example_history) ! 0)"
    by simp
  have w: "foreign_history \<noteq> [] \<and>
     (\<forall>out \<in> set (outputs (last foreign_history)). addresses out \<noteq> None)"
    by (simp add: history_eval)
  have n: "\<not> receives ''1Source'' (last foreign_history)"
    by (simp add: history_eval)
  note 2 = u[THEN conjunct2, THEN conjunct2, rule_format, OF w, THEN conjunct2, rule_format, OF n]
  have m: "map addresses (outputs (last foreign_history)) = [Some [''1Other'']]"
    by (simp add: history_eval)
  from w have e: "foreign_history \<noteq> []" by (rule conjunct1)
  from example_history_fetched c o 1 foreign_history_fetched e m n 2 show ?thesis by blast
qed

text \<open>
  C4 as stated fails: in this history the most recent transaction whose outputs contain
  the source address is \<open>bb22\<close>, but the last transaction is another one, and resolution
  fails instead of returning \<open>bb22\<close>.
\<close>

theorem prior_output_not_searched_counterexample:
  "addrs_full foreign_history_env ''1Source'' = Inr foreign_history \<and>
   filter (receives ''1Source'') foreign_history \<noteq> [] \<and>
   hash (last (filter (receives ''1Source'') foreign_history)) = ''bb22'' \<and>
   outcome (getPreviousTransactionHashAndOutputIndex foreign_history_env ''1Source'' (1 / 1000))
     = Inl (HttpException ''Previous output not found'' INTERNAL_SERVER_ERROR)"
  by (simp add: foreign_history_fetched previous_outcome[OF foreign_history_fetched]
        history_eval)

text \<open>
  What holds of the two failures where every output of the last transaction carries an
  address list: the messages arise exactly for an empty history and for a last
  transaction without an output of the source address. A send whose resolution fails,
  for whatever reason, fails without a push request.
\<close>

lemma prior_output_failures_listed:
  assumes "addrs_full env a = Inr txs"
    and "txs \<noteq> [] \<longrightarrow> (\<forall>out \<in> set (outputs (last txs)). addresses out \<noteq> None)"
  shows "outcome (getPreviousTransactionHashAndOutputIndex env a amt)
            = Inl (HttpException ''No previous transactions found'' INTERNAL_SERVER_ERROR)
          \<longleftrightarrow> txs = []"
    and "outcome (getPreviousTransactionHashAndOutputIndex env a amt)
            = Inl (HttpException ''Previous output not found'' INTERNAL_SERVER_ERROR)
          \<longleftrightarrow> txs \<noteq> [] \<and> \<not> receives a (last txs)"
proof -
  have f: "outcome (find_output a (outputs (last txs)))
             = Inr (find (lists a) (outputs (last txs)))" if "txs \<noteq> []"
    using that assms(2) by (intro find_output_listed) simp
  show "outcome (getPreviousTransactionHashAndOutputIndex env a amt)
            = Inl (HttpException ''No previous transactions found'' INTERNAL_SERVER_ERROR)
          \<longleftrightarrow> txs = []"
    using f by (auto simp: previous_outcome[OF assms(1)] split: option.splits)
  show "outcome (getPreviousTransactionHashAndOutputIndex env a amt)
            = Inl (HttpException ''Previous output not found'' INTERNAL_SERVER_ERROR)
          \<longleftrightarrow> txs \<noteq> [] \<and> \<not> receives a (last txs)"
    using f find_lists_None[of a "last txs"]
    by (auto simp: previous_outcome[OF assms(1)] split: option.splits)
qed

lemma send_without_prior_output:
  assumes "fromWIF_address env (private_key dto) = Inr a"
    and "outcome (getPreviousTransactionHashAndOutputIndex env a (amount dto)) = Inl e"
  shows "\<exists>e'. outcome (BtcServiceV1_send env dto) = Inl e'"
    and "\<not> list_ex is_push (calls (BtcServiceV1_send env dto))"
proof -
  from assms obtain e' where e': "outcome (resolve_inputs env dto) = Inl e'"
    using resolve_inputs_previous_failure(1) by blast
  show "\<exists>e'. outcome (BtcServiceV1_send env dto) = Inl e'"
    using send_resolve_failure(1)[OF e'] by blast
  show "\<not> list_ex is_push (calls (BtcServiceV1_send env dto))"
    using send_resolve_failure(2)[OF e'] resolve_inputs_no_push[of env dto] by simp
qed

text \<open>
  C5 at a history whose last transaction has a data output: none of its outputs belongs
  to the source address, yet the failure is not "Previous output not found" but the
  TypeError of reading \<open>includes\<close> of null, in resolution and so in the send.
\<close>

theorem prior_output_data_output_type_error:
  "addrs_full data_output_env ''1Source'' = Inr data_output_history \<and>
   data_output_history \<noteq> [] \<and>
   \<not> receives ''1Source'' (last data_output_history) \<and>
   outcome (getPreviousTransactionHashAndOutputIndex data_output_env ''1Source'' (1 / 1000))
     = Inl (HttpException (null_read_message ''includes'') INTERNAL_SERVER_ERROR) \<and>
   outcome (getPreviousTransactionHashAndOutputIndex data_output_env ''1Source'' (1 / 1000))
     \<noteq> Inl (HttpException ''Previous output not found'' INTERNAL_SERVER_ERROR) \<and>
   outcome (BtcServiceV1_send data_output_env example_dto)
     = Inl (HttpException (null_read_message ''includes'') INTERNAL_SERVER_ERROR) \<and>
   calls (BtcServiceV1_send data_output_env example_dto) = [GetAddrsFull ''1Source'']"
  by (simp add: data_output_env_def data_output_history_def receives_def lists_def
        null_read_message_def BtcServiceV1_send_def resolve_inputs_def
        getAddressFromPrivateKey_def getPreviousTransactionHashAndOutputIndex_def
        io_simps example_env_def example_dto_def Let_def)

subsection \<open>Evaluating the concrete worlds\<close>

lemmas btc_eval =
  BtcServiceV1_send_def resolve_inputs_def getAddressFromPrivateKey_def calculateAverageFee_def
  getPreviousTransactionHashAndOutputIndex_def build_signed_def settle_fee_def set_out_value_def
  totalPayFormat_def check_balance_def BtcServiceV1_balance_def push_def
  library_def request_def bind_io_def return_io_def throw_io_def catch_rewrap_def
  calls_def outcome_def indexOf_def parseFloat_def String_nat.simps digit_char_def Let_def
  example_env_def example_dto_def example_history_def example_built_def example_settled_def
  example_resolved_def convertToSatoshi_spec_def convertFromSatoshi_spec_def

lemma example_resolve:
  "outcome (resolve_inputs example_env example_dto) = Inr example_resolved"
  by (simp add: btc_eval)

lemma example_build:
  "outcome (build_signed example_env example_dto (r_prev example_resolved)) = Inr example_built"
  by (simp add: btc_eval)

lemma example_settle:
  "outcome (settle_fee example_env 10 0 example_built) = Inr example_settled"
  by (simp add: btc_eval)

lemma example_send_calls:
  "calls (BtcServiceV1_send example_env example_dto) =
     [GetAddrsFull ''1Source'', GetAddressDashboard ''1Source'', PushTransaction ''1Dest:1920;'']"
  by (simp add: btc_eval)

subsection \<open>Claims about the fee and the guard\<close>

lemma settle_fee_success:
  assumes "outcome (settle_fee env f i built) = Inr s"
  shows "0 \<le> i" and "nat i < length (outs built)"
    and "s_calculateFee s = f * real (byteLength env built)"
    and "s_transaction s =
           built\<lparr>outs := (outs built)
              [nat i := (outs built ! nat i)\<lparr>value := f * real (byteLength env built)\<rparr>]\<rparr>"
    and "toHex env (s_transaction s) = Inr (s_hex s)"
  using assms
  by (auto simp: settle_fee_def set_out_value_def io_simps Let_def
        split: if_splits sum.splits)

lemma resolve_inputs_index_nonneg:
  assumes "outcome (resolve_inputs env dto) = Inr r"
  shows "0 \<le> previousOutputIndex (r_prev r)"
  using assms previous_index_nonneg[of env _ "amount dto" "r_prev r"]
  by (auto simp: resolve_inputs_def io_simps Let_def split: sum.splits if_splits)

text \<open>
  C1. When the fee stage returns, the index of the consumed input is a position of the
  output list, the fee is the rate times the serialized size, and the output at that
  position carries exactly the fee as its value, whatever it held before; its address,
  the other outputs and the inputs are untouched, and the hex form is taken from this
  transaction. Whatever send pushes is the hex form of the built transaction whose single
  output, at index 0, had its value replaced by rate times size.
\<close>

theorem fee_overwrites_output_at_input_index:
  "(\<forall>s. outcome (settle_fee env f i built) = Inr s \<longrightarrow>
       0 \<le> i \<and> nat i < length (outs built) \<and>
       s_calculateFee s = f * real (byteLength env built) \<and>
       length (outs (s_transaction s)) = length (outs built) \<and>
       value (outs (s_transaction s) ! nat i) = f * real (byteLength env built) \<and>
       out_address (outs (s_transaction s) ! nat i) = out_address (outs built ! nat i) \<and>
       (\<forall>j < length (outs built). j \<noteq> nat i \<longrightarrow>
           outs (s_transaction s) ! j = outs built ! j) \<and>
       ins (s_transaction s) = ins built \<and>
       toHex env (s_transaction s) = Inr (s_hex s)) \<and>
   (\<forall>h. PushTransaction h \<in> set (calls (BtcServiceV1_send env dto)) \<longrightarrow>
       (\<exists>r b. outcome (resolve_inputs env dto) = Inr r \<and>
          outcome (build_signed env dto (r_prev r)) = Inr b \<and>
          previousOutputIndex (r_prev r) = 0 \<and>
          outs b = [\<lparr>out_address = to_address dto,
                      value = convertToSatoshi env (amount dto)\<rparr>] \<and>
          toHex env (b\<lparr>outs := [\<lparr>out_address = to_address dto,
                        value = r_feePerByte r * real (byteLength env b)\<rparr>]\<rparr>) = Inr h))"
proof (intro conjI allI impI)
  fix s
  assume s: "outcome (settle_fee env f i built) = Inr s"
  note t = settle_fee_success[OF s]
  show "0 \<le> i" and "nat i < length (outs built)"
    and "s_calculateFee s = f * real (byteLength env built)"
    and "toHex env (s_transaction s) = Inr (s_hex s)"
    by (rule t)+
  show "length (outs (s_transaction s)) = length (outs built)"
    by (simp add: t(4))
  show "value (outs (s_transaction s) ! nat i) = f * real (byteLength env built)"
    using t(2) by (simp add: t(4))
  show "out_address (outs (s_transaction s) ! nat i) = out_address (outs built ! nat i)"
    using t(2) by (simp add: t(4))
  show "ins (s_transaction s) = ins built"
    by (simp add: t(4))
  fix j
  assume "j < length (outs built)" "j \<noteq> nat i"
  then show "outs (s_transaction s) ! j = outs built ! j"
    by (simp add: t(4))
next
  fix h
  assume "PushTransaction h \<in> set (calls (BtcServiceV1_send env dto))"
  from send_pushed_hex[OF this] obtain r b s where st:
    "outcome (resolve_inputs env dto) = Inr r"
    "outcome (build_signed env dto (r_prev r)) = Inr b"
    "outcome (settle_fee env (r_feePerByte r) (previousOutputIndex (r_prev r)) b) = Inr s"
    "h = s_hex s"
    by blast
  note o = build_signed_shape(1)[OF st(2)]
  note t = settle_fee_success[OF st(3)]
  from t(1,2) o have z: "previousOutputIndex (r_prev r) = 0" by simp
  have "s_transaction s = b\<lparr>outs := [\<lparr>out_address = to_address dto,
                        value = r_feePerByte r * real (byteLength env b)\<rparr>]\<rparr>"
    by (simp add: t(4) z o)
  with t(5) st(4) have "toHex env (b\<lparr>outs := [\<lparr>out_address = to_address dto,
                        value = r_feePerByte r * real (byteLength env b)\<rparr>]\<rparr>) = Inr h"
    by simp
  with st(1,2) z o
  show "\<exists>r b. outcome (resolve_inputs env dto) = Inr r \<and>
          outcome (build_signed env dto (r_prev r)) = Inr b \<and>
          previousOutputIndex (r_prev r) = 0 \<and>
          outs b = [\<lparr>out_address = to_address dto,
                      value = convertToSatoshi env (amount dto)\<rparr>] \<and>
          toHex env (b\<lparr>outs := [\<lparr>out_address = to_address dto,
                        value = r_feePerByte r * real (byteLength env b)\<rparr>]\<rparr>) = Inr h"
    by blast
qed

theorem fee_overwrites_output_at_input_index_witness:
  "outcome (settle_fee example_env 10 0 example_built) = Inr example_settled \<and>
   value (outs example_built ! 0) = 100000 \<and>
   value (outs (s_transaction example_settled) ! 0) = 10 * real (byteLength example_env example_built) \<and>
   value (outs (s_transaction example_settled) ! 0) = 1920 \<and>
   PushTransaction ''1Dest:1920;'' \<in> set (calls (BtcServiceV1_send example_env example_dto)) \<and>
   (\<exists>r b. outcome (resolve_inputs example_env example_dto) = Inr r \<and>
      outcome (build_signed example_env example_dto (r_prev r)) = Inr b \<and>
      toHex example_env (b\<lparr>outs := [\<lparr>out_address = to_address example_dto,
                 value = r_feePerByte r * real (byteLength example_env b)\<rparr>]\<rparr>)
        = Inr ''1Dest:1920;'')"
proof -
  note t = fee_overwrites_output_at_input_index[of example_env 10 0 example_built example_dto]
  have p: "PushTransaction ''1Dest:1920;'' \<in> set (calls (BtcServiceV1_send example_env example_dto))"
    by (simp add: example_send_calls)
  have a: "value (outs (s_transaction example_settled) ! 0)
             = 10 * real (byteLength example_env example_built)"
    using t[THEN conjunct1, rule_format, OF example_settle] by simp
  have b: "value (outs example_built ! 0) = 100000"
    "value (outs (s_transaction example_settled) ! 0) = 1920"
    by (simp_all add: example_built_def example_settled_def)
  from t[THEN conjunct2, rule_format, OF p] obtain r b where
    "outcome (resolve_inputs example_env example_dto) = Inr r"
    "outcome (build_signed example_env example_dto (r_prev r)) = Inr b"
    "toHex example_env (b\<lparr>outs := [\<lparr>out_address = to_address example_dto,
                 value = r_feePerByte r * real (byteLength example_env b)\<rparr>]\<rparr>)
        = Inr ''1Dest:1920;''"
    by blast
  with example_settle a b p show ?thesis by blast
qed

lemma send_settle_failure:
  assumes "outcome (resolve_inputs env dto) = Inr r"
    and "outcome (build_signed env dto (r_prev r)) = Inr built"
    and "outcome (settle_fee env (r_feePerByte r) (previousOutputIndex (r_prev r)) built) = Inl e"
  shows "outcome (BtcServiceV1_send env dto) =
           Inl (HttpException (e_message e) INTERNAL_SERVER_ERROR)"
  using assms by (simp add: BtcServiceV1_send_def io_simps)

lemma settle_fee_guard:
  assumes "int (length (outs built)) \<le> i"
  shows "outcome (settle_fee env f i built) =
           Inl (HttpException (''Output with index '' @ String_nat (nat i)
                                 @ '' does not exist.'') BAD_REQUEST)"
  using assms by (simp add: settle_fee_def io_simps Let_def)

text \<open>
  C9. The built transaction has exactly one output (and one input). Hence, when the
  resolved index is 1 or more, the send fails without a push request, with the message of
  the guard once the transaction was built; a push request implies that the resolved
  index was 0; and past the guard the overwrite finds its output: the resolved index is
  never negative, so the assignment cannot hit a missing element.
\<close>

theorem single_output_guard:
  "(\<forall>p built. outcome (build_signed env dto p) = Inr built \<longrightarrow>
       length (outs built) = 1 \<and> length (ins built) = 1) \<and>
   (\<forall>r. outcome (resolve_inputs env dto) = Inr r \<and> 1 \<le> previousOutputIndex (r_prev r) \<longrightarrow>
       (\<exists>e. outcome (BtcServiceV1_send env dto) = Inl e) \<and>
       \<not> list_ex is_push (calls (BtcServiceV1_send env dto)) \<and>
       (\<forall>built. outcome (build_signed env dto (r_prev r)) = Inr built \<longrightarrow>
          outcome (BtcServiceV1_send env dto) =
            Inl (HttpException
                   (''Output with index '' @ String_nat (nat (previousOutputIndex (r_prev r)))
                      @ '' does not exist.'') INTERNAL_SERVER_ERROR))) \<and>
   (list_ex is_push (calls (BtcServiceV1_send env dto)) \<longrightarrow>
       (\<exists>r. outcome (resolve_inputs env dto) = Inr r \<and> previousOutputIndex (r_prev r) = 0)) \<and>
   (\<forall>r built v. outcome (resolve_inputs env dto) = Inr r \<and>
       outcome (build_signed env dto (r_prev r)) = Inr built \<and>
       \<not> int (length (outs built)) \<le> previousOutputIndex (r_prev r) \<longrightarrow>
       (\<exists>tx. set_out_value built (previousOutputIndex (r_prev r)) v = return_io tx))"
proof (intro conjI allI impI)
  fix p built
  assume b: "outcome (build_signed env dto p) = Inr built"
  show "length (outs built) = 1" by (simp add: build_signed_shape(1)[OF b])
  show "length (ins built) = 1" by (rule build_signed_shape(2)[OF b])
next
  fix r
  assume h: "outcome (resolve_inputs env dto) = Inr r \<and> 1 \<le> previousOutputIndex (r_prev r)"
  have n: "\<not> list_ex is_push (calls (BtcServiceV1_send env dto))"
  proof
    assume "list_ex is_push (calls (BtcServiceV1_send env dto))"
    then obtain r' built s where st:
      "outcome (resolve_inputs env dto) = Inr r'"
      "outcome (build_signed env dto (r_prev r')) = Inr built"
      "outcome (settle_fee env (r_feePerByte r') (previousOutputIndex (r_prev r')) built) = Inr s"
      unfolding send_push_iff by blast
    from st(1) h have "r' = r" by simp
    with settle_fee_success(2)[OF st(3)] build_signed_shape(1)[OF st(2)] h
    show False by simp
  qed
  show "\<not> list_ex is_push (calls (BtcServiceV1_send env dto))" by (rule n)
  show "\<exists>e. outcome (BtcServiceV1_send env dto) = Inl e"
    by (rule send_fails_without_push[OF n])
  fix built
  assume b: "outcome (build_signed env dto (r_prev r)) = Inr built"
  from h build_signed_shape(1)[OF b]
  have "int (length (outs built)) \<le> previousOutputIndex (r_prev r)" by simp
  from settle_fee_guard[OF this] h b
  show "outcome (BtcServiceV1_send env dto) =
            Inl (HttpException
                   (''Output with index '' @ String_nat (nat (previousOutputIndex (r_prev r)))
                      @ '' does not exist.'') INTERNAL_SERVER_ERROR)"
    by (simp add: send_settle_failure[of env dto r built])
next
  assume "list_ex is_push (calls (BtcServiceV1_send env dto))"
  then obtain r built s where st:
    "outcome (resolve_inputs env dto) = Inr r"
    "outcome (build_signed env dto (r_prev r)) = Inr built"
    "outcome (settle_fee env (r_feePerByte r) (previousOutputIndex (r_prev r)) built) = Inr s"
    unfolding send_push_iff by blast
  from settle_fee_success(1,2)[OF st(3)] build_signed_shape(1)[OF st(2)]
  have "previousOutputIndex (r_prev r) = 0" by simp
  with st(1) show "\<exists>r. outcome (resolve_inputs env dto) = Inr r \<and>
                       previousOutputIndex (r_prev r) = 0"
    by blast
next
  fix r built v
  assume h: "outcome (resolve_inputs env dto) = Inr r \<and>
       outcome (build_signed env dto (r_prev r)) = Inr built \<and>
       \<not> int (length (outs built)) \<le> previousOutputIndex (r_prev r)"
  then have "0 \<le> previousOutputIndex (r_prev r)"
    using resolve_inputs_index_nonneg by blast
  with h show "\<exists>tx. set_out_value built (previousOutputIndex (r_prev r)) v = return_io tx"
    by (auto simp: set_out_value_def)
qed

lemma second_output_resolve:
  "outcome (resolve_inputs second_output_env example_dto) =
     Inr \<lparr>r_address = ''1Source'', r_feePerByte = 10,
          r_prev = \<lparr>previousTransactionHash = ''aa11'', previousOutputIndex = 1\<rparr>\<rparr>"
  by (simp add: second_output_env_def btc_eval)

theorem single_output_guard_witness:
  "outcome (resolve_inputs second_output_env example_dto) =
     Inr \<lparr>r_address = ''1Source'', r_feePerByte = 10,
          r_prev = \<lparr>previousTransactionHash = ''aa11'', previousOutputIndex = 1\<rparr>\<rparr> \<and>
   outcome (BtcServiceV1_send second_output_env example_dto) =
     Inl (HttpException ''Output with index 1 does not exist.'' INTERNAL_SERVER_ERROR) \<and>
   \<not> list_ex is_push (calls (BtcServiceV1_send second_output_env example_dto)) \<and>
   outcome (build_signed example_env example_dto (r_prev example_resolved)) = Inr example_built \<and>
   length (outs example_built) = 1 \<and>
   list_ex is_push (calls (BtcServiceV1_send example_env example_dto)) \<and>
   (\<exists>r. outcome (resolve_inputs example_env example_dto) = Inr r \<and>
        previousOutputIndex (r_prev r) = 0) \<and>
   (\<exists>tx. set_out_value example_built (previousOutputIndex (r_prev example_resolved)) 1920
           = return_io tx)"
proof -
  note t = single_output_guard[of second_output_env example_dto]
  note u = single_output_guard[of example_env example_dto]
  let ?r = "\<lparr>r_address = ''1Source'', r_feePerByte = 10,
          r_prev = \<lparr>previousTransactionHash = ''aa11'', previousOutputIndex = 1\<rparr>\<rparr>"
  have i: "1 \<le> previousOutputIndex (r_prev ?r)" by simp
  note g = t[THEN conjunct2, THEN conjunct1, rule_format, OF conjI[OF second_output_resolve i]]
  have b: "outcome (build_signed second_output_env example_dto (r_prev ?r)) =
             Inr \<lparr>ins = [\<lparr>in_hash = ''aa11'', in_index = 1, script = ''30450221''\<rparr>],
                  outs = [\<lparr>out_address = ''1Dest'', value = 100000\<rparr>]\<rparr>"
    by (simp add: second_output_env_def btc_eval)
  have 1: "outcome (BtcServiceV1_send second_output_env example_dto) =
     Inl (HttpException ''Output with index 1 does not exist.'' INTERNAL_SERVER_ERROR)"
    using g[THEN conjunct2, THEN conjunct2, rule_format, OF b] by (simp add: String_nat.simps digit_char_def)
  have 2: "\<not> list_ex is_push (calls (BtcServiceV1_send second_output_env example_dto))"
    using g[THEN conjunct2, THEN conjunct1] .
  have 3: "length (outs example_built) = 1"
    using u[THEN conjunct1, rule_format, OF example_build] by simp
  have p: "list_ex is_push (calls (BtcServiceV1_send example_env example_dto))"
    by (simp add: example_send_calls)
  have 4: "\<exists>r. outcome (resolve_inputs example_env example_dto) = Inr r \<and>
        previousOutputIndex (r_prev r) = 0"
    using u[THEN conjunct2, THEN conjunct2, THEN conjunct1, rule_format, OF p] .
  have w: "\<not> int (length (outs example_built)) \<le> previousOutputIndex (r_prev example_resolved)"
    by (simp add: example_built_def example_resolved_def)
  have 5: "\<exists>tx. set_out_value example_built (previousOutputIndex (r_prev example_resolved)) 1920
           = return_io tx"
    using u[THEN conjunct2, THEN conjunct2, THEN conjunct2, rule_format,
            OF conjI[OF example_resolve conjI[OF example_build w]]] .
  from second_output_resolve 1 2 example_build 3 p 4 5 show ?thesis by blast
qed

subsection \<open>Claims about the balance check and the push\<close>

lemma check_balance_outcome:
  assumes "outcome (BtcServiceV1_balance env a) = Inr ub"
  shows "outcome (check_balance env dto a f s) =
     (if data ub < totalPayFormat env dto f s
      then Inl (HttpException ''Insufficient coin balance'' INTERNAL_SERVER_ERROR)
      else Inr ())"
  using assms by (simp add: check_balance_def io_simps)

lemma send_check_failure:
  assumes "outcome (resolve_inputs env dto) = Inr r"
    and "outcome (build_signed env dto (r_prev r)) = Inr built"
    and "outcome (settle_fee env (r_feePerByte r) (previousOutputIndex (r_prev r)) built) = Inr s"
    and "outcome (check_balance env dto (r_address r) (r_feePerByte r) s) = Inl e"
  shows "outcome (BtcServiceV1_send env dto) =
           Inl (HttpException (e_message e) INTERNAL_SERVER_ERROR)"
    and "\<not> list_ex is_push (calls (BtcServiceV1_send env dto))"
  using assms resolve_inputs_no_push[of env dto]
    check_balance_no_push[of env dto "r_address r" "r_feePerByte r" s]
  by (simp_all add: BtcServiceV1_send_def io_simps build_signed_calls settle_fee_calls)

lemma totalPayFormat_eq:
  assumes "outcome (build_signed env dto p) = Inr built"
    and "outcome (settle_fee env f i built) = Inr s"
  shows "totalPayFormat env dto f s =
           convertFromSatoshi env (f * real (byteLength env built) + f * 1) + amount dto"
  using build_signed_shape(2)[OF assms(1)] settle_fee_success(3,4)[OF assms(2)]
  by (simp add: totalPayFormat_def parseFloat_def Let_def)

text \<open>
  C2, as the code has it. When the send reaches the balance check, the amount compared
  with the balance is the total fee, rate times size plus rate times the number of
  inputs (one), converted to human units, plus the requested amount. A balance below
  that amount ends the send with "Insufficient coin balance" and without a push request;
  otherwise the transaction is pushed. In particular, for a non-negative rate and a
  monotone conversion, a balance below the requested amount plus the converted fee (rate
  times size) is rejected.
\<close>

theorem balance_check_total:
  assumes "outcome (resolve_inputs env dto) = Inr r"
    and "outcome (build_signed env dto (r_prev r)) = Inr built"
    and "outcome (settle_fee env (r_feePerByte r) (previousOutputIndex (r_prev r)) built) = Inr s"
    and "outcome (BtcServiceV1_balance env (r_address r)) = Inr ub"
  shows "totalPayFormat env dto (r_feePerByte r) s =
           convertFromSatoshi env
             (r_feePerByte r * real (byteLength env built) + r_feePerByte r * 1) + amount dto \<and>
     (data ub < totalPayFormat env dto (r_feePerByte r) s \<longrightarrow>
        outcome (BtcServiceV1_send env dto) =
          Inl (HttpException ''Insufficient coin balance'' INTERNAL_SERVER_ERROR) \<and>
        \<not> list_ex is_push (calls (BtcServiceV1_send env dto))) \<and>
     (\<not> data ub < totalPayFormat env dto (r_feePerByte r) s \<longrightarrow>
        PushTransaction (s_hex s) \<in> set (calls (BtcServiceV1_send env dto))) \<and>
     ((\<forall>x y. x \<le> y \<longrightarrow> convertFromSatoshi env x \<le> convertFromSatoshi env y) \<and>
      0 \<le> r_feePerByte r \<and>
      data ub < amount dto
                  + convertFromSatoshi env (r_feePerByte r * real (byteLength env built)) \<longrightarrow>
        outcome (BtcServiceV1_send env dto) =
          Inl (HttpException ''Insufficient coin balance'' INTERNAL_SERVER_ERROR) \<and>
        \<not> list_ex is_push (calls (BtcServiceV1_send env dto)))"
proof -
  note c = check_balance_outcome[OF assms(4), of dto "r_feePerByte r" s]
  note tp = totalPayFormat_eq[OF assms(2,3)]
  have low: "outcome (BtcServiceV1_send env dto) =
          Inl (HttpException ''Insufficient coin balance'' INTERNAL_SERVER_ERROR) \<and>
        \<not> list_ex is_push (calls (BtcServiceV1_send env dto))"
    if "data ub < totalPayFormat env dto (r_feePerByte r) s"
  proof -
    from that c have "outcome (check_balance env dto (r_address r) (r_feePerByte r) s) =
        Inl (HttpException ''Insufficient coin balance'' INTERNAL_SERVER_ERROR)"
      by simp
    from send_check_failure[OF assms(1,2,3) this] show ?thesis by simp
  qed
  have high: "PushTransaction (s_hex s) \<in> set (calls (BtcServiceV1_send env dto))"
    if "\<not> data ub < totalPayFormat env dto (r_feePerByte r) s"
  proof -
    from that c have "outcome (check_balance env dto (r_address r) (r_feePerByte r) s) = Inr ()"
      by simp
    from send_reaches_push(2)[OF assms(1,2,3) this] show ?thesis by simp
  qed
  have below: "data ub < totalPayFormat env dto (r_feePerByte r) s"
    if m: "\<forall>x y. x \<le> y \<longrightarrow> convertFromSatoshi env x \<le> convertFromSatoshi env y"
      and f: "0 \<le> r_feePerByte r"
      and d: "data ub < amount dto
                  + convertFromSatoshi env (r_feePerByte r * real (byteLength env built))"
  proof -
    from f have "r_feePerByte r * real (byteLength env built)
                   \<le> r_feePerByte r * real (byteLength env built) + r_feePerByte r * 1"
      by simp
    with m have "convertFromSatoshi env (r_feePerByte r * real (byteLength env built))
        \<le> convertFromSatoshi env
             (r_feePerByte r * real (byteLength env built) + r_feePerByte r * 1)"
      by blast
    with d show ?thesis unfolding tp by linarith
  qed
  from tp low high below show ?thesis by blast
qed

lemma poor_balance:
  "outcome (BtcServiceV1_balance poor_env (r_address example_resolved)) =
     Inr \<lparr>status = True, data = 1 / 100000\<rparr>"
  by (simp add: poor_env_def btc_eval)

lemma example_balance:
  "outcome (BtcServiceV1_balance example_env (r_address example_resolved)) =
     Inr \<lparr>status = True, data = 2 / 1000\<rparr>"
  by (simp add: btc_eval)

lemma poor_stages:
  "outcome (resolve_inputs poor_env example_dto) = Inr example_resolved"
  "outcome (build_signed poor_env example_dto (r_prev example_resolved)) = Inr example_built"
  "outcome (settle_fee poor_env (r_feePerByte example_resolved)
              (previousOutputIndex (r_prev example_resolved)) example_built) = Inr example_settled"
  by (simp_all add: poor_env_def btc_eval)

lemma example_stages:
  "outcome (settle_fee example_env (r_feePerByte example_resolved)
              (previousOutputIndex (r_prev example_resolved)) example_built) = Inr example_settled"
  by (simp add: btc_eval)

theorem balance_check_total_witness:
  "outcome (resolve_inputs poor_env example_dto) = Inr example_resolved \<and>
   outcome (build_signed poor_env example_dto (r_prev example_resolved)) = Inr example_built \<and>
   outcome (settle_fee poor_env (r_feePerByte example_resolved)
              (previousOutputIndex (r_prev example_resolved)) example_built) = Inr example_settled \<and>
   outcome (BtcServiceV1_balance poor_env (r_address example_resolved)) =
     Inr \<lparr>status = True, data = 1 / 100000\<rparr> \<and>
   totalPayFormat poor_env example_dto 10 example_settled = 1930 / 10 ^ 8 + 1 / 1000 \<and>
   (1 / 100000 :: real) < 1 / 1000 + convertFromSatoshi poor_env (10 * 192) \<and>
   outcome (BtcServiceV1_send poor_env example_dto) =
     Inl (HttpException ''Insufficient coin balance'' INTERNAL_SERVER_ERROR) \<and>
   \<not> list_ex is_push (calls (BtcServiceV1_send poor_env example_dto)) \<and>
   \<not> (2 / 1000 < totalPayFormat example_env example_dto 10 example_settled) \<and>
   PushTransaction (s_hex example_settled)
     \<in> set (calls (BtcServiceV1_send example_env example_dto))"
proof -
  note t = balance_check_total[OF poor_stages poor_balance]
  note u = balance_check_total[OF example_resolve example_build example_stages example_balance]
  have f: "r_feePerByte example_resolved = 10" "amount example_dto = 1 / 1000"
    "real (byteLength poor_env example_built) = 192"
    "real (byteLength example_env example_built) = 192"
    by (simp_all add: example_resolved_def example_dto_def poor_env_def example_env_def)
  have cv: "convertFromSatoshi poor_env = (\<lambda>x. x / 10 ^ 8)"
    "convertFromSatoshi example_env = (\<lambda>x. x / 10 ^ 8)"
    by (simp_all add: poor_env_def example_env_def convertFromSatoshi_spec_def fun_eq_iff)
  have 1: "totalPayFormat poor_env example_dto 10 example_settled = 1930 / 10 ^ 8 + 1 / 1000"
    using t[THEN conjunct1] by (simp add: f cv)
  have 2: "(1 / 100000 :: real) < 1 / 1000 + convertFromSatoshi poor_env (10 * 192)"
    by (simp add: cv)
  have m: "\<forall>x y. x \<le> y \<longrightarrow> convertFromSatoshi poor_env x \<le> convertFromSatoshi poor_env y"
    by (simp add: cv divide_right_mono)
  have "outcome (BtcServiceV1_send poor_env example_dto) =
     Inl (HttpException ''Insufficient coin balance'' INTERNAL_SERVER_ERROR) \<and>
   \<not> list_ex is_push (calls (BtcServiceV1_send poor_env example_dto))"
    using t[THEN conjunct2, THEN conjunct2, THEN conjunct2] m 2 by (simp add: f)
  moreover have 3: "\<not> (2 / 1000 < totalPayFormat example_env example_dto 10 example_settled)"
    using u[THEN conjunct1] by (simp add: f cv)
  moreover have "PushTransaction (s_hex example_settled)
     \<in> set (calls (BtcServiceV1_send example_env example_dto))"
    using u[THEN conjunct2, THEN conjunct2, THEN conjunct1] 3 by (simp add: f)
  ultimately show ?thesis using poor_stages poor_balance 1 2 by blast
qed

text \<open>
  C2 as stated fails: with a balance of 101920 satoshi, exactly the requested 0.001 plus
  the converted fee of 1920 satoshi, the balance covers amount plus fee, yet the send is
  rejected, because the amount compared also holds the rate once per input.
\<close>

theorem balance_check_counterexample:
  "outcome (BtcServiceV1_balance tight_balance_env ''1Source'')
     = Inr \<lparr>status = True, data = 101920 / 10 ^ 8\<rparr> \<and>
   outcome (settle_fee tight_balance_env 10 0 example_built) = Inr example_settled \<and>
   convertFromSatoshi tight_balance_env (s_calculateFee example_settled) + amount example_dto
     = 101920 / 10 ^ 8 \<and>
   totalPayFormat tight_balance_env example_dto 10 example_settled
     \<noteq> convertFromSatoshi tight_balance_env (s_calculateFee example_settled)
         + amount example_dto \<and>
   outcome (BtcServiceV1_send tight_balance_env example_dto)
     = Inl (HttpException ''Insufficient coin balance'' INTERNAL_SERVER_ERROR)"
  by (simp add: tight_balance_env_def btc_eval)

text \<open>
  C3. Whenever the send pushed a transaction and the endpoint refused it with an error
  text, the send returns (it does not throw) a result with status false: for the text
  "Invalid transaction. Error: txn-mempool-conflict" the message asks to wait for the
  previous transaction, for any other text the message is that text itself.
\<close>

theorem refused_push_outcomes:
  assumes "PushTransaction h \<in> set (calls (BtcServiceV1_send env dto))"
    and "push_transaction env h = Refused m"
  shows "(m = ''Invalid transaction. Error: txn-mempool-conflict'' \<longrightarrow>
            outcome (BtcServiceV1_send env dto) =
              Inr (NotSent \<lparr>status = False,
                     message = ''You have an incomplete transaction. Wait until the previous transaction is completed''\<rparr>)) \<and>
         (m \<noteq> ''Invalid transaction. Error: txn-mempool-conflict'' \<longrightarrow>
            outcome (BtcServiceV1_send env dto) =
              Inr (NotSent \<lparr>status = False, message = m\<rparr>))"
proof -
  from send_pushed_hex[OF assms(1)] obtain r built s where st:
    "outcome (resolve_inputs env dto) = Inr r"
    "outcome (build_signed env dto (r_prev r)) = Inr built"
    "outcome (settle_fee env (r_feePerByte r) (previousOutputIndex (r_prev r)) built) = Inr s"
    "outcome (check_balance env dto (r_address r) (r_feePerByte r) s) = Inr ()"
    "h = s_hex s"
    by blast
  have "outcome (BtcServiceV1_send env dto) = outcome (push env dto (r_address r) h)"
    unfolding st(5) by (rule send_reaches_push(1)[OF st(1,2,3,4)])
  with assms(2) show ?thesis
    by (simp add: push_def outcome_def)
qed

lemma conflict_send_calls:
  "PushTransaction ''1Dest:1920;'' \<in> set (calls (BtcServiceV1_send conflict_env example_dto))"
  by (simp add: conflict_env_def btc_eval)

lemma dust_send_calls:
  "PushTransaction ''1Dest:1920;'' \<in> set (calls (BtcServiceV1_send dust_env example_dto))"
  by (simp add: dust_env_def btc_eval)

theorem refused_push_outcomes_witness:
  "PushTransaction ''1Dest:1920;'' \<in> set (calls (BtcServiceV1_send conflict_env example_dto)) \<and>
   push_transaction conflict_env ''1Dest:1920;''
     = Refused ''Invalid transaction. Error: txn-mempool-conflict'' \<and>
   outcome (BtcServiceV1_send conflict_env example_dto) =
     Inr (NotSent \<lparr>status = False,
            message = ''You have an incomplete transaction. Wait until the previous transaction is completed''\<rparr>) \<and>
   PushTransaction ''1Dest:1920;'' \<in> set (calls (BtcServiceV1_send dust_env example_dto)) \<and>
   push_transaction dust_env ''1Dest:1920;'' = Refused ''Invalid transaction. Error: dust'' \<and>
   outcome (BtcServiceV1_send dust_env example_dto) =
     Inr (NotSent \<lparr>status = False, message = ''Invalid transaction. Error: dust''\<rparr>)"
proof -
  have c: "push_transaction conflict_env ''1Dest:1920;''
     = Refused ''Invalid transaction. Error: txn-mempool-conflict''"
    by (simp add: conflict_env_def)
  have d: "push_transaction dust_env ''1Dest:1920;'' = Refused ''Invalid transaction. Error: dust''"
    by (simp add: dust_env_def)
  have 1: "outcome (BtcServiceV1_send conflict_env example_dto) =
     Inr (NotSent \<lparr>status = False,
            message = ''You have an incomplete transaction. Wait until the previous transaction is completed''\<rparr>)"
    using refused_push_outcomes[OF conflict_send_calls c] by simp
  have 2: "outcome (BtcServiceV1_send dust_env example_dto) =
     Inr (NotSent \<lparr>status = False, message = ''Invalid transaction. Error: dust''\<rparr>)"
    using refused_push_outcomes[OF dust_send_calls d] by simp
  from conflict_send_calls c 1 dust_send_calls d 2 show ?thesis by blast
qed

subsection \<open>Validation of the recipient and the network\<close>

text \<open>
  With a fee in the request, a malformed recipient is rejected before any request is
  sent.
\<close>

lemma send_malformed_recipient_with_fee:
  assumes "fromWIF_address env (private_key dto) = Inr a"
    and "fee dto = Some f" and "f \<noteq> 0"
    and "\<not> validate env (to_address dto)"
  shows "calls (BtcServiceV1_send env dto) = []"
    and "outcome (BtcServiceV1_send env dto) =
           Inl (HttpException ''Incorrect recipient address'' INTERNAL_SERVER_ERROR)"
  using assms
  by (simp_all add: BtcServiceV1_send_def resolve_inputs_def getAddressFromPrivateKey_def
        io_simps Let_def)

text \<open>
  C6 at a request without a fee: the estimator is asked before the recipient is looked
  at, so the rejection of a malformed recipient comes after a network request, and when
  the estimator cannot be reached the failure is the estimator's, not the address's.
\<close>

theorem send_asks_estimator_before_validating:
  "\<not> validate example_env (to_address malformed_dto) \<and>
   calls (BtcServiceV1_send example_env malformed_dto) = [GetRecommendedFees] \<and>
   outcome (BtcServiceV1_send example_env malformed_dto)
     = Inl (HttpException ''Incorrect recipient address'' INTERNAL_SERVER_ERROR) \<and>
   calls (BtcServiceV1_send offline_estimator_env malformed_dto) = [GetRecommendedFees] \<and>
   outcome (BtcServiceV1_send offline_estimator_env malformed_dto)
     = Inl (HttpException ''getaddrinfo ENOTFOUND bitcoinfees.earn.com'' INTERNAL_SERVER_ERROR)"
  by (simp add: offline_estimator_env_def malformed_dto_def btc_eval)

section \<open>Properties of the account-model engine\<close>

subsection \<open>Decimal strings\<close>







lemma toLocaleString_whole:
  assumes "n < 2 ^ 53"
  shows "toLocaleString_fullwide (real n) = String_nat n"
proof -
  from assms have "real n < 2 ^ 53"
    by (metis of_nat_less_iff of_nat_numeral of_nat_power)
  then have p: "printed_value \<bar>real n\<bar> = real n"
    by (simp add: printed_value_def)
  have f: "\<lfloor>real n * 1000 + 1 / 2\<rfloor> = int (n * 1000)"
    by (simp add: floor_eq_iff)
  have t: "nat \<lfloor>printed_value \<bar>real n\<bar> * 1000 + 1 / 2\<rfloor> = n * 1000"
    by (simp only: p f nat_int)
  have z: "\<not> real n < 0" by simp
  show ?thesis
    unfolding toLocaleString_fullwide_def Let_def t
    by (simp only: z if_False) simp
qed

subsection \<open>Doubles\<close>

lemma bits_le: "n < 2 ^ k \<Longrightarrow> bits n \<le> k"
proof (induction k arbitrary: n)
  case 0
  then show ?case by (simp add: bits.simps)
next
  case (Suc k)
  show ?case
  proof (cases "n = 0")
    case True
    then show ?thesis by (simp add: bits.simps)
  next
    case False
    from Suc.prems have "n div 2 < 2 ^ k" by simp
    from Suc.IH[OF this] False show ?thesis
      by (subst bits.simps) simp
  qed
qed

lemma round_half_even_int: "round_half_even (of_int z) = z"
  by (simp add: round_half_even_def)

text \<open>A whole number below \<open>2^53\<close> is a double.\<close>

lemma fl_nat:
  assumes "n < 2 ^ 53"
  shows "fl (real n) = real n"
proof (cases "n = 0")
  case True
  then show ?thesis by (simp add: fl_def)
next
  case False
  then have one: "1 \<le> real n" by simp
  define k where "k = 53 - bits n"
  from bits_le[OF assms] have b: "int (bits n) - 1 - 52 = - int k" "bits n \<le> 53"
    by (simp_all add: k_def)
  have e: "binary_exponent (real n) - 52 = - int k"
    using one b(1) by (simp add: binary_exponent_def)
  have p: "ipow 2 (- int k) = 1 / 2 ^ k"
    by (cases "k = 0") (simp_all add: ipow_def)
  have "real n / ipow 2 (- int k) = of_int (int (n * 2 ^ k))"
    by (simp add: p)
  then have m: "round_half_even (real n / ipow 2 (- int k)) = int (n * 2 ^ k)"
    by (simp only: round_half_even_int)
  from False have "fl (real n) =
      sgn (real n) * of_int (round_half_even (real n / ipow 2 (binary_exponent (real n) - 52)))
        * ipow 2 (binary_exponent (real n) - 52)"
    by (simp add: fl_def Let_def)
  also have "\<dots> = sgn (real n) * of_int (int (n * 2 ^ k)) * ipow 2 (- int k)"
    by (simp only: e m)
  also have "\<dots> = real n"
    using False by (simp add: p)
  finally show ?thesis .
qed

lemmas float_eval =
  fl_def binary_exponent_def decimal_exponent_def round_half_even_def ipow_def
  bits.simps digits10.simps round_trip_candidate_def shortest_from.simps printed_value_def
  toLocaleString_fullwide_def fraction_digits_def token_amount_def String_nat.simps
  digit_char_def Let_def

text \<open>The powers of ten up to \<open>10^22\<close> are doubles.\<close>

lemma fl_power_of_ten:
  assumes "d \<le> 22"
  shows "fl (10 ^ d) = 10 ^ d"
proof -
  from assms have
    "d = 0 \<or> d = 1 \<or> d = 2 \<or> d = 3 \<or> d = 4 \<or> d = 5 \<or> d = 6
      \<or> d = 7 \<or> d = 8 \<or> d = 9 \<or> d = 10 \<or> d = 11 \<or> d = 12 \<or>
      d = 13 \<or> d = 14 \<or> d = 15 \<or> d = 16 \<or> d = 17 \<or> d = 18 \<or> d
      = 19 \<or> d = 20 \<or> d = 21 \<or> d = 22"
    by arith
  then show ?thesis
    by (elim disjE) (simp_all add: float_eval)
qed

subsection \<open>Claims about the token send\<close>


lemma token_amount_whole:
  assumes "d \<le> 22" and "n < 2 ^ 53" and "a * 10 ^ d = real n"
  shows "token_amount a d = String_nat n"
proof -
  have "fl (a * fl (10 ^ d)) = fl (real n)"
    by (simp only: fl_power_of_ten[OF assms(1)] assms(3))
  also have "\<dots> = real n" by (rule fl_nat[OF assms(2)])
  finally show ?thesis
    by (simp only: token_amount_def toLocaleString_whole[OF assms(2)])
qed

lemma token_amount_example: "token_amount (3 / 2) 6 = ''1500000''"
proof -
  have "(3 / 2 :: real) * 10 ^ 6 = real 1500000" by simp
  then have "token_amount (3 / 2) 6 = String_nat 1500000"
    by (intro token_amount_whole) simp_all
  then show ?thesis
    by (simp add: String_nat.simps digit_char_def)
qed



subsection \<open>Evaluating the concrete node\<close>

lemmas web3_eval =
  Web3Service_send_def Web3Service_balance_def unsigned_transaction_def token_transaction_def
  coin_transaction_def calculateEstimateGasFees_def getContractDecimal_def balanceCall_def
  fromWei_toString_def parseInt_String_def token_amount_example
  library_def request_def bind_io_def return_io_def throw_io_def catch_rewrap_def
  calls_def outcome_def Let_def
  example_web3_def example_token_dto_def example_balance_dto_def malformed_web3_dto_def
  no_limit_dto_def





subsection \<open>Claims about the gas limit\<close>

lemma estimate_fees_default:
  assumes "\<not> (\<exists>g. gas_limit dto = Some g \<and> g > 0)"
    and "outcome (calculateEstimateGasFees env amt addr dto) = Inr q"
  shows "\<exists>est. estimateGas_transfer env (contract dto) (to_address dto) amt addr = Inr est \<and>
           gasLimit q = real_of_int (parseInt_String (real est / 2)) + real est"
proof -
  from assms(1) have "\<not> (case gas_limit dto of Some g \<Rightarrow> g > 0 | None \<Rightarrow> False)"
    by (simp split: option.splits)
  with assms(2) show ?thesis
    by (auto simp: calculateEstimateGasFees_def io_simps Let_def split: sum.splits)
qed

lemma parseInt_half: "parseInt_String (real est / 2) = int (est div 2)"
proof -
  have "\<lfloor>real est / real 2\<rfloor> = int (est div 2)"
    by (rule floor_divide_of_nat_eq)
  then show ?thesis by (simp add: parseInt_String_def)
qed

text \<open>
  With a gas limit of zero or below in the request, a fee calculation that returns gives
  the estimate plus the floor of its half.
\<close>

lemma nonpositive_gas_limit_default:
  assumes "gas_limit dto = Some g" and "g \<le> 0"
    and "outcome (calculateEstimateGasFees env amt addr dto) = Inr q"
  shows "\<exists>est. estimateGas_transfer env (contract dto) (to_address dto) amt addr = Inr est \<and>
           gasLimit q = real est + real_of_int \<lfloor>real est / 2\<rfloor>"
proof -
  from assms(1,2) have "\<not> (\<exists>g. gas_limit dto = Some g \<and> g > 0)" by simp
  from estimate_fees_default[OF this assms(3)] obtain est where e:
    "estimateGas_transfer env (contract dto) (to_address dto) amt addr = Inr est"
    "gasLimit q = real_of_int (parseInt_String (real est / 2)) + real est"
    by blast
  have "real_of_int \<lfloor>real est / 2\<rfloor> = real (est div 2)"
    using parseInt_half[of est] by (simp add: parseInt_String_def)
  with e show ?thesis by (auto simp: parseInt_half)
qed

text \<open>
  Without a gas limit in the request the fee calculation never returns: whatever the node
  answers, it ends in an exception, and once the gas price and the estimate have arrived
  the exception is the one of web3's number parser on the text \<open>NaN\<close>.
\<close>

lemma estimate_fees_without_limit:
  assumes "gas_limit dto = None"
  shows "\<exists>e. outcome (calculateEstimateGasFees env amt addr dto) = Inl e"
    and "eth_getGasPrice env = Inr price \<Longrightarrow>
         estimateGas_transfer env (contract dto) (to_address dto) amt addr = Inr est \<Longrightarrow>
         outcome (calculateEstimateGasFees env amt addr dto)
           = Inl (HttpException (fromWei_NaN_message env) INTERNAL_SERVER_ERROR)"
  using assms
  by (auto simp: calculateEstimateGasFees_def fromWei_toString_def io_simps Let_def
        split: sum.splits)

text \<open>
  C8 at a token request without a gas limit: the estimate is asked for and 51001 comes
  back, so the limit would be 76501, but the fee calculation then throws on the text
  \<open>NaN\<close> of the gas fees; no gas limit is resolved and the send fails before anything is
  signed or submitted. The same request with a gas limit of zero resolves 76501.
\<close>

theorem token_send_without_gas_limit_throws:
  "gas_limit no_limit_dto = None \<and>
   estimateGas_transfer example_web3 ''0xToken'' ''0xDest'' ''1500000'' ''0xSource''
     = Inr 51001 \<and>
   calls (calculateEstimateGasFees example_web3 ''1500000'' ''0xSource'' no_limit_dto)
     = [RpcGetGasPrice, RpcEstimateGasTransfer ''0xToken'' ''0xDest'' ''1500000'' ''0xSource''] \<and>
   outcome (calculateEstimateGasFees example_web3 ''1500000'' ''0xSource'' no_limit_dto)
     = Inl (HttpException number_to_bn_message INTERNAL_SERVER_ERROR) \<and>
   calls (Web3Service_send example_web3 ''https://bsc.example'' ''56'' no_limit_dto)
     = [RpcDecimals ''0xToken'', RpcGetGasPrice,
        RpcEstimateGasTransfer ''0xToken'' ''0xDest'' ''1500000'' ''0xSource''] \<and>
   outcome (Web3Service_send example_web3 ''https://bsc.example'' ''56'' no_limit_dto)
     = Inl (HttpException number_to_bn_message INTERNAL_SERVER_ERROR) \<and>
   outcome (calculateEstimateGasFees example_web3 ''1500000'' ''0xSource'' example_token_dto)
     = Inr \<lparr>quote_amount = ''1500000'', tx = ''ok'', gasLimit = 76501,
            gasPrice = 5000000000, estimateGasFees = ''0''\<rparr>"
  by (simp add: web3_eval)

subsection \<open>Claims about the balance and the recipient\<close>

text \<open>
  C10. For a valid address and a type that is neither \<open>coin\<close> nor \<open>token\<close>, the balance
  operation sends nothing, throws nothing, and returns status true with a data value
  that was never assigned.
\<close>

theorem balance_of_unknown_type:
  assumes "isAddress env (address dto)"
    and "balance_type dto \<noteq> ''coin''" and "balance_type dto \<noteq> ''token''"
  shows "calls (Web3Service_balance env chainLink dto) = [] \<and>
         outcome (Web3Service_balance env chainLink dto) = Inr \<lparr>status = True, data = None\<rparr>"
  using assms by (simp add: Web3Service_balance_def io_simps)

theorem balance_of_unknown_type_witness:
  "isAddress example_web3 (address example_balance_dto) \<and>
   balance_type example_balance_dto \<noteq> ''coin'' \<and>
   balance_type example_balance_dto \<noteq> ''token'' \<and>
   calls (Web3Service_balance example_web3 ''https://bsc.example'' example_balance_dto) = [] \<and>
   outcome (Web3Service_balance example_web3 ''https://bsc.example'' example_balance_dto)
     = Inr \<lparr>status = True, data = None\<rparr>"
proof -
  have a: "isAddress example_web3 (address example_balance_dto)"
    by (simp add: example_web3_def example_balance_dto_def)
  have b: "balance_type example_balance_dto \<noteq> ''coin''"
    "balance_type example_balance_dto \<noteq> ''token''"
    by (simp_all add: example_balance_dto_def)
  from balance_of_unknown_type[OF a b, of "''https://bsc.example''"] a b
  show ?thesis by blast
qed

text \<open>
  The account-model send rejects a malformed recipient before any request is sent: the
  address derivation is local.
\<close>

lemma Web3Service_send_malformed_recipient:
  assumes "getAddressByPrivateKey env (private_key dto) = Inr a"
    and "\<not> isAddress env (to_address dto)"
  shows "calls (Web3Service_send env chainLink chainId dto) = []"
    and "outcome (Web3Service_send env chainLink chainId dto) =
           Inl (HttpException ''Incorrect recipient address'' INTERNAL_SERVER_ERROR)"
  using assms by (simp_all add: Web3Service_send_def io_simps)

end
